theory Spec2Isabelle
  imports Complex_Main
begin

section \<open>Faction/ui/PurchaseableAugmentation.tsx\<close>

text \<open>
  The component \<open>PurchaseableAugmentation\<close> renders one table row of the faction
  screen: a Buy button, the augmentation's name and its requirements. In this
  section JavaScript numbers (and the player's \<open>Decimal\<close> money, read here only
  through \<open>lt\<close>) are modelled as real numbers; rounding, infinities and NaN are
  outside its model.
\<close>

subsection \<open>Data\<close>

text \<open>\<open>aug.info\<close> is either a string of HTML or an element.\<close>

datatype Info = InfoString string | InfoElement string

text \<open>The fields of \<open>Augmentation\<close> that the component reads.\<close>

record Augmentation =
  name :: string
  baseCost :: real
  baseRepRequirement :: real
  prereqs :: "string list"
  owned :: bool
  info :: Info
  stats :: string

text \<open>
  \<open>faction.getInfo()\<close> returns the faction's static data; the method is a field
  holding its result.
\<close>

record FactionInfo =
  augmentationPriceMult :: real
  augmentationRepRequirementMult :: real

record Faction =
  playerReputation :: real
  getInfo :: FactionInfo

text \<open>
  Of the entries of \<open>queuedAugmentations\<close> and \<open>augmentations\<close> only the \<open>name\<close>
  is read, so each list holds the names in order.
\<close>

record IPlayer =
  money :: real
  queuedAugmentations :: "string list"
  augmentations :: "string list"

text \<open>
  The props of the component. \<open>props.p\<close> and the optional \<open>props.owned\<close> are the
  fields \<open>props_p\<close> and \<open>props_owned\<close>; \<open>props.rerender\<close> is a callback and appears
  as an effect of \<open>handleClick\<close> below.
\<close>

record IProps =
  augName :: string
  faction :: Faction
  props_p :: IPlayer
  props_owned :: "bool option"

text \<open>
  The module-level values the component reaches for: the catalog \<open>Augmentations\<close>
  (an \<open>IMap\<close>, a missing key reads as \<open>undefined\<close>), the constant
  \<open>AugmentationNames.NeuroFluxGovernor\<close>, the setting
  \<open>Settings.SuppressBuyAugmentationConfirmation\<close> and the value returned by
  \<open>getNextNeurofluxLevel()\<close>. Their modules are not part of the sources at hand, so
  they are parameters of the model.
\<close>

record Globals =
  Augmentations :: "string \<rightharpoonup> Augmentation"
  NeuroFluxGovernor :: string
  SuppressBuyAugmentationConfirmation :: bool
  getNextNeurofluxLevel :: nat

subsection \<open>The local functions of the component\<close>

definition getMoneyCost :: "Augmentation \<Rightarrow> IProps \<Rightarrow> real" where
  "getMoneyCost aug props = baseCost aug * augmentationPriceMult (getInfo (faction props))"

definition getRepCost :: "Augmentation \<Rightarrow> IProps \<Rightarrow> real" where
  "getRepCost aug props =
     baseRepRequirement aug * augmentationRepRequirementMult (getInfo (faction props))"

text \<open>
  Modelled from the spec: \<open>hasAugmentationPrereqs\<close> lives in \<open>FactionHelpers\<close>, which is
  not among the sources. The specification gives \<open>missingPrereqs\<close> as the subset of
  the entry's prerequisites not present in the player's owned-or-queued set, and the
  prerequisites as satisfied when that subset is empty.
\<close>

definition missingPrereqs :: "Augmentation \<Rightarrow> IPlayer \<Rightarrow> string list" where
  "missingPrereqs aug pl =
     filter (\<lambda>n. n \<notin> set (augmentations pl) \<union> set (queuedAugmentations pl)) (prereqs aug)"

definition hasAugmentationPrereqs :: "Augmentation \<Rightarrow> IPlayer \<Rightarrow> bool" where
  "hasAugmentationPrereqs aug pl = (missingPrereqs aug pl = [])"

definition hasPrereqs :: "Augmentation \<Rightarrow> IProps \<Rightarrow> bool" where
  "hasPrereqs aug props = hasAugmentationPrereqs aug (props_p props)"

definition hasReputation :: "Augmentation \<Rightarrow> IProps \<Rightarrow> bool" where
  "hasReputation aug props = (playerReputation (faction props) \<ge> getRepCost aug props)"

text \<open>
  One \<open>for ... of\<close> loop of \<open>owned()\<close>: the flag is set and the loop left at the first
  entry whose name is the one looked for.
\<close>

fun owned_loop :: "string \<Rightarrow> string list \<Rightarrow> bool \<Rightarrow> bool" where
  "owned_loop n [] flag = flag"
| "owned_loop n (x # xs) flag = (if x = n then True else owned_loop n xs flag)"

text \<open>The local function \<open>owned()\<close>: first the queued, then the installed augmentations.\<close>

definition owned_fn :: "IProps \<Rightarrow> bool" where
  "owned_fn props =
     (let flag = False;
          flag = owned_loop (augName props) (queuedAugmentations (props_p props)) flag;
          flag = owned_loop (augName props) (augmentations (props_p props)) flag
      in flag)"

text \<open>
  The constant \<open>hasCost\<close> of the component. Despite its name it holds when the
  player can \<^emph>\<open>not\<close> pay: the base cost is not zero and the money is below the cost.
\<close>

definition hasCost :: "Augmentation \<Rightarrow> IProps \<Rightarrow> bool" where
  "hasCost aug props =
     (baseCost aug \<noteq> 0 \<and>
      money (props_p props) < baseCost aug * augmentationPriceMult (getInfo (faction props)))"

subsection \<open>The specification's names for these values\<close>

definition effectiveCost :: "Augmentation \<Rightarrow> IProps \<Rightarrow> real" where
  "effectiveCost aug props = getMoneyCost aug props"

definition effectiveRepRequirement :: "Augmentation \<Rightarrow> IProps \<Rightarrow> real" where
  "effectiveRepRequirement aug props = getRepCost aug props"

definition hasSufficientRep :: "Augmentation \<Rightarrow> IProps \<Rightarrow> bool" where
  "hasSufficientRep aug props = hasReputation aug props"

definition hasSufficientFunds :: "Augmentation \<Rightarrow> IProps \<Rightarrow> bool" where
  "hasSufficientFunds aug props = (\<not> hasCost aug props)"

subsection \<open>Determining the UI properties\<close>

text \<open>
  The three shapes of the element \<open>status\<close>: locked by prerequisites (with the
  prerequisites named), unlocked, and locked by reputation (both with the reputation
  and the money cost shown). \<open>null\<close> is \<open>None\<close>.
\<close>

datatype Status =
    StatusLockedPrereqs "string list"
  | StatusUnlocked real real
  | StatusLockedRep real real

datatype Color = Primary | ColorError

record UIProperties =
  disabled :: bool
  status :: "Status option"
  color :: Color

text \<open>
  The block "Determine UI properties": the three variables start as \<open>false\<close>,
  \<open>null\<close> and \<open>"primary"\<close>, one branch of the chain updates them, and the test of
  \<open>hasCost\<close> after the chain updates them once more.
\<close>

definition determineUIProperties :: "Globals \<Rightarrow> Augmentation \<Rightarrow> IProps \<Rightarrow> UIProperties" where
  "determineUIProperties g aug props =
     (let moneyCost = getMoneyCost aug props;
          repCost = getRepCost aug props;
          hasReq = hasPrereqs aug props;
          hasRep = hasReputation aug props;
          ui = \<lparr>disabled = False, status = None, color = Primary\<rparr>;
          ui =
            (if \<not> hasReq then
               ui\<lparr>disabled := True,
                  status := Some (StatusLockedPrereqs (prereqs aug)),
                  color := ColorError\<rparr>
             else if name aug \<noteq> NeuroFluxGovernor g \<and> (owned aug \<or> owned_fn props) then
               ui\<lparr>disabled := True\<rparr>
             else if hasRep then
               ui\<lparr>status := Some (StatusUnlocked repCost moneyCost)\<rparr>
             else
               ui\<lparr>disabled := True,
                  status := Some (StatusLockedRep repCost moneyCost),
                  color := ColorError\<rparr>)
      in if hasCost aug props then ui\<lparr>disabled := True, color := ColorError\<rparr> else ui)"

text \<open>
  The specification's \<open>displayState\<close>, read off the variables the component
  computes. The Buy button exists only when \<open>status\<close> is not \<open>null\<close> (the text of
  \<open>status\<close> itself is never shown), and it reacts to a click only when \<open>disabled\<close> is
  false: without a status the row is that of an augmentation already owned, with a
  status the button is locked or unlocked.
\<close>

datatype DisplayState = Locked | Unlocked | AlreadyOwned

definition displayState :: "UIProperties \<Rightarrow> DisplayState" where
  "displayState ui =
     (if status ui = None then AlreadyOwned else if disabled ui then Locked else Unlocked)"

subsection \<open>The click handler\<close>

text \<open>
  What \<open>handleClick\<close> does to the world, in order: \<open>createPopup\<close> with the popup's id
  and the augmentation, faction and player handed to it, \<open>purchaseAugmentation\<close>,
  and the callback \<open>props.rerender\<close>.
\<close>

datatype Effect =
    createPopup string Augmentation Faction IPlayer
  | purchaseAugmentation Augmentation Faction
  | rerender

text \<open>\<open>handleClick\<close> closes over the variable \<open>disabled\<close>, the last argument here.\<close>

definition handleClick :: "Globals \<Rightarrow> Augmentation \<Rightarrow> IProps \<Rightarrow> bool \<Rightarrow> Effect list" where
  "handleClick g aug props is_disabled =
     (if is_disabled then []
      else if \<not> SuppressBuyAugmentationConfirmation g then
        (let popupId = ''purchase-augmentation-popup''
         in [createPopup popupId aug (faction props) (props_p props)])
      else [purchaseAugmentation aug (faction props), rerender])"

subsection \<open>The component \<open>Requirements\<close>\<close>

datatype exn = Error string | TypeError

record IReqProps =
  req_augName :: string
  req_p :: IPlayer
  hasReq :: bool
  rep :: real
  hasRep :: bool
  cost :: real
  req_hasCost :: bool

text \<open>
  The cells \<open>Requirements\<close> renders: one cell over two columns naming the
  prerequisites, or a money cell and a reputation cell in one colour.
\<close>

datatype ReqCell =
    CellRequires "string list"
  | CellMoney Color real
  | CellReputation Color real

text \<open>
  \<open>Requirements\<close> looks the augmentation up again and reads \<open>aug.prereqs\<close> only when
  \<open>hasReq\<close> is false; on an unknown name that read is a \<open>TypeError\<close>.
\<close>

definition Requirements :: "Globals \<Rightarrow> IReqProps \<Rightarrow> exn + ReqCell list" where
  "Requirements g rprops =
     (if \<not> hasReq rprops then
        (case Augmentations g (req_augName rprops) of
           None \<Rightarrow> Inl TypeError
         | Some aug \<Rightarrow> Inr [CellRequires (prereqs aug)])
      else
        (let c = (if \<not> hasRep rprops \<and> \<not> req_hasCost rprops then ColorError else Primary)
         in Inr [CellMoney c (cost rprops), CellReputation c (rep rprops)]))"

subsection \<open>The component \<open>PurchaseableAugmentation\<close>\<close>

text \<open>JavaScript's conversion of a natural number to its decimal string.\<close>

fun digit_char :: "nat \<Rightarrow> char" where
  "digit_char d = char_of (48 + d)"

function toString_nat :: "nat \<Rightarrow> string" where
  "toString_nat n =
     (if n < 10 then [digit_char n] else toString_nat (n div 10) @ [digit_char (n mod 10)])"
  by pat_completeness auto
termination
  by (relation "measure (\<lambda>n. n)") auto

declare toString_nat.simps [simp del]

datatype Tooltip = TooltipHtml string string | TooltipElement string string

text \<open>
  The Buy button with its colour and what a click on it does (its \<open>onClick\<close> is
  \<open>handleClick\<close>).
\<close>

record Button =
  onClick :: "Effect list"
  button_color :: Color

text \<open>
  The rendered row. \<open>buyCell\<close> is \<open>None\<close> when the first cell is left out
  (\<open>props.owned\<close>), \<open>Some None\<close> for a cell without a button and \<open>Some (Some b)\<close> for a
  cell with the button; \<open>requirements\<close> is the \<open>Requirements\<close> element with its props,
  left out when \<open>props.owned\<close>.
\<close>

record TableRow =
  buyCell :: "Button option option"
  tooltip :: Tooltip
  btnTxt :: string
  requirements :: "IReqProps option"

datatype Element = Fragment | Row TableRow

text \<open>
  The component returns an element, having written lines to \<open>console.error\<close>, or
  throws. The second test of \<open>aug == null\<close> is in the model as it is in the code,
  after the first.
\<close>

definition PurchaseableAugmentation :: "Globals \<Rightarrow> IProps \<Rightarrow> exn + (string list \<times> Element)" where
  "PurchaseableAugmentation g props =
     (let aug = Augmentations g (augName props) in
      if aug = None then Inl (Error (''aug '' @ augName props @ '' does not exists''))
      else if aug = None then
        Inr ([''Invalid Augmentation when trying to create PurchaseableAugmentation display element: ''
                @ augName props],
             Fragment)
      else
        (let aug = the aug;
             moneyCost = getMoneyCost aug props;
             repCost = getRepCost aug props;
             ui = determineUIProperties g aug props;
             btnTxt =
               (if name aug = NeuroFluxGovernor g
                then name aug @ '' - Level '' @ toString_nat (getNextNeurofluxLevel g)
                else name aug);
             tooltip =
               (case info aug of
                  InfoString s \<Rightarrow> TooltipHtml s (stats aug)
                | InfoElement e \<Rightarrow> TooltipElement e (stats aug));
             is_owned = (props_owned props = Some True)
         in Inr ([],
              Row \<lparr>buyCell =
                     (if \<not> is_owned then
                        Some (if status ui \<noteq> None
                              then Some \<lparr>onClick = handleClick g aug props (disabled ui),
                                         button_color = color ui\<rparr>
                              else None)
                      else None),
                   tooltip = tooltip,
                   btnTxt = btnTxt,
                   requirements =
                     (if \<not> is_owned then
                        Some \<lparr>req_augName = augName props, req_p = props_p props,
                              hasReq = hasPrereqs aug props, rep = repCost,
                              hasRep = hasReputation aug props, cost = moneyCost,
                              req_hasCost = hasCost aug props\<rparr>
                      else None)\<rparr>)))"

section \<open>ui/React/VFX.tsx\<close>

text \<open>
  \<open>smoothstep\<close> is arithmetic on JavaScript numbers, and what it returns depends on
  how each operation rounds. A number is therefore a binary64 value here: a finite
  real (the constructor \<open>Finite\<close>; \<open>Finite 0\<close> is the zero with the positive sign),
  the negative zero, an infinity or NaN, and every operation rounds its exact result
  to the nearest binary64 value, ties to the even significand.
\<close>

subsection \<open>Rounding to binary64\<close>

text \<open>The integer nearest to \<open>z\<close>, the even one of the two when \<open>z\<close> lies halfway.\<close>

definition round_half_even :: "real \<Rightarrow> int" where
  "round_half_even z =
     (let f = \<lfloor>z\<rfloor>; d = z - of_int f
      in if d < 1 / 2 then f else if d > 1 / 2 then f + 1 else if even f then f else f + 1)"

text \<open>
  The exponent of the unit in the last place at \<open>y\<close>: a significand of 53 bits, and
  the spacing of the subnormal numbers, \<open>2 powi - 1074\<close>, below \<open>2 powi - 1022\<close>.
\<close>

definition ulp_exponent :: "real \<Rightarrow> int" where
  "ulp_exponent y = max \<lfloor>log 2 \<bar>y\<bar>\<rfloor> (- 1022) - 52"

text \<open>Rounding to the nearest multiple of that unit; the exponent is not bounded above.\<close>

definition roundTiesToEven :: "real \<Rightarrow> real" where
  "roundTiesToEven y =
     (if y = 0 then 0
      else of_int (round_half_even (y / 2 powi ulp_exponent y)) * 2 powi ulp_exponent y)"

text \<open>
  The reals of the format: a significand below \<open>2 ^ 53\<close> in magnitude and an exponent
  of at least \<open>- 1074\<close>.
\<close>

definition representable :: "real \<Rightarrow> bool" where
  "representable r = (\<exists>m e. \<bar>m\<bar> < 2 ^ 53 \<and> - 1074 \<le> e \<and> r = of_int m * 2 powi e)"

subsection \<open>Numbers and their operations\<close>

datatype number = Finite real | NegZero | PosInf | NegInf | NaN

text \<open>\<open>Number.MAX_VALUE\<close>, the largest finite number.\<close>

definition MAX_VALUE :: real where
  "MAX_VALUE = (2 ^ 53 - 1) * 2 powi 971"

text \<open>
  The numbers a JavaScript value of type number can be: every finite one has a
  significand below \<open>2 ^ 53\<close> in magnitude and an exponent from \<open>- 1074\<close> to \<open>971\<close>.
\<close>

definition is_binary64 :: "number \<Rightarrow> bool" where
  "is_binary64 x =
     (case x of
        Finite r \<Rightarrow> (\<exists>e\<in>{- 1074..971}. \<exists>m\<in>{- (2 ^ 53) <..< 2 ^ 53}. r = of_int m * 2 powi e)
      | _ \<Rightarrow> True)"

fun sign_bit :: "number \<Rightarrow> bool" where
  "sign_bit (Finite r) = (r < 0)"
| "sign_bit NegZero = True"
| "sign_bit PosInf = False"
| "sign_bit NegInf = True"
| "sign_bit NaN = False"

fun is_zero :: "number \<Rightarrow> bool" where
  "is_zero (Finite r) = (r = 0)"
| "is_zero NegZero = True"
| "is_zero _ = False"

fun is_inf :: "number \<Rightarrow> bool" where
  "is_inf PosInf = True"
| "is_inf NegInf = True"
| "is_inf _ = False"

fun val :: "number \<Rightarrow> real" where
  "val (Finite r) = r"
| "val _ = 0"

definition signed_zero :: "bool \<Rightarrow> number" where
  "signed_zero s = (if s then NegZero else Finite 0)"

definition signed_inf :: "bool \<Rightarrow> number" where
  "signed_inf s = (if s then NegInf else PosInf)"

text \<open>
  The number an operation returns for the exact result \<open>y\<close>: the rounded value, an
  infinity when that lies beyond \<open>MAX_VALUE\<close>, and a zero with the sign \<open>s\<close> when it is
  zero.
\<close>

definition round64 :: "bool \<Rightarrow> real \<Rightarrow> number" where
  "round64 s y =
     (let r = roundTiesToEven y
      in if MAX_VALUE < \<bar>r\<bar> then signed_inf (y < 0)
         else if r = 0 then signed_zero s
         else Finite r)"

text \<open>The unary minus.\<close>

fun num_neg :: "number \<Rightarrow> number" where
  "num_neg (Finite r) = (if r = 0 then NegZero else Finite (- r))"
| "num_neg NegZero = Finite 0"
| "num_neg PosInf = NegInf"
| "num_neg NegInf = PosInf"
| "num_neg NaN = NaN"

text \<open>
  \<open>a + b\<close>: infinities of opposite sign give NaN, and an exact sum of zero is the
  negative zero only when both operands are negative.
\<close>

definition num_add :: "number \<Rightarrow> number \<Rightarrow> number" where
  "num_add a b =
     (if a = NaN \<or> b = NaN then NaN
      else if is_inf a \<and> is_inf b \<and> a \<noteq> b then NaN
      else if is_inf a then a
      else if is_inf b then b
      else round64 (sign_bit a \<and> sign_bit b) (val a + val b))"

text \<open>\<open>a - b\<close> is \<open>a + (- b)\<close>.\<close>

definition num_sub :: "number \<Rightarrow> number \<Rightarrow> number" where
  "num_sub a b = num_add a (num_neg b)"

text \<open>\<open>a * b\<close>: an infinity times a zero is NaN; the sign is that of the two signs.\<close>

definition num_mul :: "number \<Rightarrow> number \<Rightarrow> number" where
  "num_mul a b =
     (if a = NaN \<or> b = NaN then NaN
      else if (is_inf a \<and> is_zero b) \<or> (is_zero a \<and> is_inf b) then NaN
      else if is_inf a \<or> is_inf b then signed_inf (sign_bit a \<noteq> sign_bit b)
      else round64 (sign_bit a \<noteq> sign_bit b) (val a * val b))"

text \<open>
  \<open>a / b\<close>: two infinities or two zeros give NaN, a division by zero an infinity and
  a division by an infinity a zero.
\<close>

definition num_div :: "number \<Rightarrow> number \<Rightarrow> number" where
  "num_div a b =
     (if a = NaN \<or> b = NaN then NaN
      else if (is_inf a \<and> is_inf b) \<or> (is_zero a \<and> is_zero b) then NaN
      else if is_inf a then signed_inf (sign_bit a \<noteq> sign_bit b)
      else if is_inf b then signed_zero (sign_bit a \<noteq> sign_bit b)
      else if is_zero b then signed_inf (sign_bit a \<noteq> sign_bit b)
      else round64 (sign_bit a \<noteq> sign_bit b) (val a / val b))"

text \<open>\<open>a <= b\<close>: false when either is NaN; the two zeros are equal.\<close>

fun num_le :: "number \<Rightarrow> number \<Rightarrow> bool" where
  "num_le NaN _ = False"
| "num_le _ NaN = False"
| "num_le NegInf _ = True"
| "num_le _ PosInf = True"
| "num_le PosInf _ = False"
| "num_le _ NegInf = False"
| "num_le a b = (val a \<le> val b)"

text \<open>\<open>a >= b\<close>.\<close>

definition num_ge :: "number \<Rightarrow> number \<Rightarrow> bool" where
  "num_ge a b = num_le b a"

subsection \<open>\<open>clamp01\<close>, \<open>smoothstep\<close> and the opacity of \<open>BlackScreen\<close>\<close>

definition clamp01 :: "number \<Rightarrow> number" where
  "clamp01 x =
     (if num_le x (Finite 0) then Finite 0 else if num_ge x (Finite 1) then Finite 1 else x)"

text \<open>\<open>smoothstep\<close> scales and clamps \<open>x\<close>, then applies the cubic.\<close>

definition smoothstep :: "number \<Rightarrow> number \<Rightarrow> number \<Rightarrow> number" where
  "smoothstep edge0 edge1 x =
     (let x = clamp01 (num_div (num_sub x edge0) (num_sub edge1 edge0))
      in num_mul (num_mul x x) (num_sub (Finite 3.0) (num_mul (Finite 2.0) x)))"

text \<open>
  The \<open>opacity\<close> of the style of the element \<open>BlackScreen\<close> returns, from the value of
  its state \<open>opacity\<close>.
\<close>

definition BlackScreen_opacity :: "number \<Rightarrow> number" where
  "BlackScreen_opacity opacity = smoothstep (Finite 0) (Finite 1) opacity"

text \<open>
  The value of \<open>x * x * (3.0 - 2.0 * x)\<close> at a finite \<open>x = t\<close> between 0 and 1, with its
  four roundings (lemma \<open>cubic_number\<close>).
\<close>

definition cubic64 :: "real \<Rightarrow> real" where
  "cubic64 t =
     roundTiesToEven (roundTiesToEven (t * t) * roundTiesToEven (3 - roundTiesToEven (2 * t)))"

section \<open>Helper lemmas\<close>

lemma owned_loop_eq: "owned_loop n xs flag = (flag \<or> n \<in> set xs)"
  by (induction xs) auto

lemma owned_fn_eq:
  "owned_fn props =
     (augName props \<in> set (queuedAugmentations (props_p props)) \<or>
      augName props \<in> set (augmentations (props_p props)))"
  by (simp add: owned_fn_def owned_loop_eq)

lemma hasPrereqs_iff: "hasPrereqs aug props = (missingPrereqs aug (props_p props) = [])"
  by (simp add: hasPrereqs_def hasAugmentationPrereqs_def)

text \<open>The three ways through the chain of tests, each followed by the test of \<open>hasCost\<close>.\<close>

lemma ui_no_prereqs:
  "\<not> hasPrereqs aug props \<Longrightarrow>
   determineUIProperties g aug props =
     \<lparr>disabled = True, status = Some (StatusLockedPrereqs (prereqs aug)), color = ColorError\<rparr>"
  by (simp add: determineUIProperties_def Let_def)

lemma ui_owned:
  "hasPrereqs aug props \<Longrightarrow> name aug \<noteq> NeuroFluxGovernor g \<Longrightarrow> owned aug \<or> owned_fn props \<Longrightarrow>
   determineUIProperties g aug props =
     \<lparr>disabled = True, status = None,
      color = (if hasCost aug props then ColorError else Primary)\<rparr>"
  by (simp add: determineUIProperties_def Let_def)

lemma ui_available:
  "hasPrereqs aug props \<Longrightarrow>
   \<not> (name aug \<noteq> NeuroFluxGovernor g \<and> (owned aug \<or> owned_fn props)) \<Longrightarrow>
   determineUIProperties g aug props =
     \<lparr>disabled = (\<not> hasReputation aug props \<or> hasCost aug props),
      status = Some (if hasReputation aug props
                     then StatusUnlocked (getRepCost aug props) (getMoneyCost aug props)
                     else StatusLockedRep (getRepCost aug props) (getMoneyCost aug props)),
      color = (if \<not> hasReputation aug props \<or> hasCost aug props then ColorError else Primary)\<rparr>"
  by (auto simp add: determineUIProperties_def Let_def)

text \<open>The row the component returns for a name the catalog knows.\<close>

lemma component_found:
  "Augmentations g (augName props) = Some aug \<Longrightarrow>
   \<exists>r. PurchaseableAugmentation g props = Inr ([], Row r) \<and>
       btnTxt r = (if name aug = NeuroFluxGovernor g
                   then name aug @ '' - Level '' @ toString_nat (getNextNeurofluxLevel g)
                   else name aug) \<and>
       buyCell r =
         (if props_owned props = Some True then None
          else Some (if status (determineUIProperties g aug props) = None then None
                     else Some \<lparr>onClick = handleClick g aug props
                                            (disabled (determineUIProperties g aug props)),
                                button_color = color (determineUIProperties g aug props)\<rparr>)) \<and>
       requirements r =
         (if props_owned props = Some True then None
          else Some \<lparr>req_augName = augName props, req_p = props_p props,
                     hasReq = hasPrereqs aug props, rep = getRepCost aug props,
                     hasRep = hasReputation aug props, cost = getMoneyCost aug props,
                     req_hasCost = hasCost aug props\<rparr>)"
  by (simp add: PurchaseableAugmentation_def Let_def)

text \<open>
  For a name the catalog does not know the component throws, and on no input does it
  return the empty fragment of its second test of \<open>aug == null\<close>.
\<close>

lemma component_not_found:
  "Augmentations g (augName props) = None \<Longrightarrow>
   PurchaseableAugmentation g props = Inl (Error (''aug '' @ augName props @ '' does not exists''))"
  by (simp add: PurchaseableAugmentation_def)

lemma component_never_fragment: "PurchaseableAugmentation g props \<noteq> Inr (lg, Fragment)"
  by (simp add: PurchaseableAugmentation_def Let_def)


text \<open>
  Rounding to binary64: \<open>roundTiesToEven\<close> yields a nearest number of the format,
  so it fixes the numbers of the format and keeps a value on its side of each of them.
\<close>

lemma round_half_even_nearest:
  "\<bar>of_int (round_half_even z) - z\<bar> \<le> \<bar>of_int n - z\<bar>"
proof -
  have f1: "of_int \<lfloor>z\<rfloor> \<le> z" and f2: "z < of_int \<lfloor>z\<rfloor> + 1"
    by linarith+
  have "n \<le> \<lfloor>z\<rfloor> \<or> \<lfloor>z\<rfloor> + 1 \<le> n" by linarith
  then have "of_int n \<le> (of_int \<lfloor>z\<rfloor> :: real) \<or> (of_int \<lfloor>z\<rfloor> :: real) + 1 \<le> of_int n"
    by (metis of_int_le_iff of_int_add of_int_1)
  then show ?thesis
    using f1 f2 by (auto simp add: round_half_even_def Let_def)
qed

lemma powr_two_int: "(2::real) powr real_of_int j = 2 powi j"
  by (simp add: powr_real_of_int')

lemma binade:
  assumes "y \<noteq> 0"
  shows "2 powi \<lfloor>log 2 \<bar>y\<bar>\<rfloor> \<le> \<bar>y\<bar>" and "\<bar>y\<bar> < 2 powi (\<lfloor>log 2 \<bar>y\<bar>\<rfloor> + 1)"
proof -
  have pos: "0 < \<bar>y\<bar>" using assms by simp
  have "(\<lfloor>log 2 \<bar>y\<bar>\<rfloor> = \<lfloor>log 2 \<bar>y\<bar>\<rfloor>) =
        (2 powi \<lfloor>log 2 \<bar>y\<bar>\<rfloor> \<le> \<bar>y\<bar> \<and> \<bar>y\<bar> < 2 powi (\<lfloor>log 2 \<bar>y\<bar>\<rfloor> + 1))"
    using floor_log_eq_powr_iff [OF pos, of 2 "\<lfloor>log 2 \<bar>y\<bar>\<rfloor>", unfolded powr_two_int] by simp
  then show "2 powi \<lfloor>log 2 \<bar>y\<bar>\<rfloor> \<le> \<bar>y\<bar>" and "\<bar>y\<bar> < 2 powi (\<lfloor>log 2 \<bar>y\<bar>\<rfloor> + 1)"
    by blast+
qed

lemma floor_log_binade:
  assumes "2 powi k \<le> \<bar>y\<bar>" and "\<bar>y\<bar> < 2 powi (k + 1)"
  shows "\<lfloor>log 2 \<bar>y\<bar>\<rfloor> = k"
proof -
  have "0 < (2::real) powi k" by (simp add: zero_less_power_int)
  then have pos: "0 < \<bar>y\<bar>" using assms(1) by linarith
  show ?thesis
    using floor_log_eq_powr_iff [OF pos, of 2 k, unfolded powr_two_int] assms by simp
qed

lemma scaled_abs:
  fixes u :: real
  assumes "0 < u"
  shows "\<bar>of_int n * u - y\<bar> = \<bar>of_int n - y / u\<bar> * u"
proof -
  have "of_int n * u - y = (of_int n - y / u) * u"
    using assms by (simp add: field_simps)
  then show ?thesis using assms by (simp add: abs_mult)
qed

lemma roundTiesToEven_nearest:
  assumes "representable r"
  shows "\<bar>roundTiesToEven y - y\<bar> \<le> \<bar>r - y\<bar>"
proof (cases "y = 0")
  case True
  then show ?thesis by (simp add: roundTiesToEven_def)
next
  case False
  define k where "k = \<lfloor>log 2 \<bar>y\<bar>\<rfloor>"
  define c where "c = ulp_exponent y"
  define u :: real where "u = 2 powi c"
  define n0 where "n0 = round_half_even (y / u)"
  have c: "c = max k (- 1022) - 52" by (simp add: c_def ulp_exponent_def k_def)
  have u: "0 < u" by (simp add: u_def zero_less_power_int)
  have fl: "roundTiesToEven y = of_int n0 * u"
    using False by (simp add: roundTiesToEven_def n0_def u_def c_def)
  have grid: "\<bar>roundTiesToEven y - y\<bar> \<le> \<bar>of_int n * u - y\<bar>" for n
    unfolding fl scaled_abs [OF u]
    using round_half_even_nearest [of "y / u" n] u
    by (simp add: n0_def mult_right_mono)
  obtain m e where m: "\<bar>m\<bar> < 2 ^ 53" and e: "- 1074 \<le> e" and r: "r = of_int m * 2 powi e"
    using assms by (auto simp add: representable_def)
  show ?thesis
  proof (cases "c \<le> e")
    case True
    have "(2::real) powi e = 2 powi (e - c) * 2 powi c"
      using power_int_add [of "2::real" "e - c" c] by simp
    also have "(2::real) powi (e - c) = of_int (2 ^ nat (e - c))"
      using True by (simp add: power_int_def)
    finally have "r = of_int (m * 2 ^ nat (e - c)) * u"
      by (simp add: r u_def)
    then show ?thesis using grid [of "m * 2 ^ nat (e - c)"] by simp
  next
    case below: False
    then have kk: "c = k - 52" and e53: "e \<le> k - 53" using c e by linarith+
    have lo: "2 powi k \<le> \<bar>y\<bar>" using binade(1) [OF False] by (simp add: k_def)
    have "\<bar>r\<bar> = \<bar>of_int m\<bar> * 2 powi e"
      by (simp add: r abs_mult zero_less_power_int less_imp_le)
    also have "\<dots> < 2 ^ 53 * 2 powi e"
    proof -
      have "\<bar>of_int m :: real\<bar> < 2 ^ 53"
        using m by (metis of_int_abs of_int_less_numeral_power_cancel_iff)
      then show ?thesis by (simp add: zero_less_power_int)
    qed
    also have "\<dots> = 2 powi (53 + e)"
      using power_int_add [of "2::real" 53 e] by simp
    also have "\<dots> \<le> 2 powi k"
      using e53 by (intro power_int_increasing) auto
    finally have rk: "\<bar>r\<bar> < 2 powi k" .
    have pk: "(2::real) powi k = of_int (2 ^ 52) * u"
      using power_int_add [of "2::real" 52 c] by (simp add: u_def kk)
    show ?thesis
    proof (cases "0 < y")
      case True
      have "\<bar>roundTiesToEven y - y\<bar> \<le> \<bar>2 powi k - y\<bar>"
        using grid [of "2 ^ 52"] pk by simp
      then show ?thesis using lo rk True by linarith
    next
      case neg: False
      have "\<bar>roundTiesToEven y - y\<bar> \<le> \<bar>- (2 powi k) - y\<bar>"
        using grid [of "- (2 ^ 52)"] pk by simp
      then show ?thesis using lo rk neg by linarith
    qed
  qed
qed

lemma representable_fixed: "representable r \<Longrightarrow> roundTiesToEven r = r"
  using roundTiesToEven_nearest [of r r] by simp

lemma roundTiesToEven_le: "representable r \<Longrightarrow> y \<le> r \<Longrightarrow> roundTiesToEven y \<le> r"
  using roundTiesToEven_nearest [of r y] by linarith

lemma roundTiesToEven_ge: "representable r \<Longrightarrow> r \<le> y \<Longrightarrow> r \<le> roundTiesToEven y"
  using roundTiesToEven_nearest [of r y] by linarith

lemma representable_multiple:
  assumes "representable t" and "2 powi k \<le> \<bar>t\<bar>"
  shows "\<exists>n::int. t = of_int n * 2 powi (k - 52)"
proof -
  obtain m e where m: "\<bar>m\<bar> < 2 ^ 53" and t: "t = of_int m * 2 powi e"
    using assms(1) by (auto simp add: representable_def)
  have "\<bar>t\<bar> = \<bar>of_int m\<bar> * 2 powi e"
    by (simp add: t abs_mult zero_less_power_int less_imp_le)
  also have "\<dots> < 2 ^ 53 * 2 powi e"
  proof -
    have "\<bar>of_int m :: real\<bar> < 2 ^ 53"
      using m by (metis of_int_abs of_int_less_numeral_power_cancel_iff)
    then show ?thesis by (simp add: zero_less_power_int)
  qed
  also have "\<dots> = 2 powi (53 + e)"
    using power_int_add [of "2::real" 53 e] by simp
  finally have "(2::real) powi k < 2 powi (53 + e)" using assms(2) by linarith
  then have "k < 53 + e"
    by (metis linorder_not_less one_le_numeral power_int_increasing)
  then have ge: "0 \<le> e - (k - 52)" by linarith
  have "(2::real) powi e = 2 powi (e - (k - 52)) * 2 powi (k - 52)"
    using power_int_add [of "2::real" "e - (k - 52)" "k - 52"] by simp
  also have "(2::real) powi (e - (k - 52)) = of_int (2 ^ nat (e - (k - 52)))"
    using ge by (simp add: power_int_def)
  finally have "t = of_int (m * 2 ^ nat (e - (k - 52))) * 2 powi (k - 52)"
    by (simp add: t)
  then show ?thesis by blast
qed

lemma representable_grid:
  assumes "- 1022 \<le> k" and "\<bar>of_int n * (2::real) powi (k - 52)\<bar> \<le> 2 powi (k + 1)"
  shows "representable (of_int n * 2 powi (k - 52))"
proof -
  have "(2::real) powi (k + 1) = 2 powi (53 + (k - 52))"
    by (rule arg_cong [where f = "\<lambda>i. 2 powi i"]) simp
  then have top: "(2::real) powi (k + 1) = 2 ^ 53 * 2 powi (k - 52)"
    using power_int_add [of "2::real" 53 "k - 52"] by simp
  moreover have "\<bar>of_int n * 2 powi (k - 52)\<bar> = \<bar>of_int n :: real\<bar> * 2 powi (k - 52)"
    by (simp add: abs_mult zero_less_power_int less_imp_le)
  ultimately have "\<bar>of_int n :: real\<bar> * 2 powi (k - 52) \<le> 2 ^ 53 * 2 powi (k - 52)"
    using assms(2) by simp
  then have "\<bar>of_int n :: real\<bar> \<le> 2 ^ 53"
    by (simp add: zero_less_power_int)
  then have n: "\<bar>n\<bar> \<le> 2 ^ 53"
    by (metis of_int_abs of_int_le_numeral_power_cancel_iff)
  show ?thesis
  proof (cases "\<bar>n\<bar> < 2 ^ 53")
    case True
    then show ?thesis
      unfolding representable_def using assms(1) by (intro exI [of _ n] exI [of _ "k - 52"]) simp
  next
    case False
    then have "n = 2 ^ 53 \<or> n = - (2 ^ 53)" using n by linarith
    then have "of_int n * 2 powi (k - 52) = of_int (if 0 < n then 1 else - 1) * (2::real) powi (k + 1)"
      unfolding top by auto
    then show ?thesis
      unfolding representable_def using assms(1)
      by (intro exI [of _ "if 0 < n then 1 else - 1"] exI [of _ "k + 1"]) auto
  qed
qed

lemma representableI:
  "\<bar>m\<bar> < 2 ^ 53 \<Longrightarrow> - 1074 \<le> e \<Longrightarrow> r = of_int m * 2 powi e \<Longrightarrow> representable r"
  unfolding representable_def by blast

lemma representable_consts:
  "representable 0" "representable 1" "representable 2" "representable 3" "representable (1 / 4)"
proof -
  show "representable 0" by (rule representableI [of 0 0]) simp_all
  show "representable 1" by (rule representableI [of 1 0]) simp_all
  show "representable 2" by (rule representableI [of 2 0]) simp_all
  show "representable 3" by (rule representableI [of 3 0]) simp_all
  show "representable (1 / 4)" by (rule representableI [of 1 "- 2"]) (simp_all add: power_int_minus)
qed

text \<open>The rounded value is a number of the format.\<close>

lemma roundTiesToEven_representable: "representable (roundTiesToEven y)"
proof (cases "y = 0")
  case True
  then show ?thesis by (simp add: roundTiesToEven_def representable_consts(1))
next
  case False
  define k where "k = max \<lfloor>log 2 \<bar>y\<bar>\<rfloor> (- 1022)"
  define u :: real where "u = 2 powi (k - 52)"
  define z where "z = y / u"
  define n where "n = round_half_even z"
  have k: "- 1022 \<le> k" by (simp add: k_def)
  have u: "0 < u" by (simp add: u_def zero_less_power_int)
  have fl: "roundTiesToEven y = of_int n * 2 powi (k - 52)"
    using False by (simp add: roundTiesToEven_def ulp_exponent_def n_def z_def u_def k_def)
  have "\<bar>y\<bar> < 2 powi (\<lfloor>log 2 \<bar>y\<bar>\<rfloor> + 1)" by (rule binade(2) [OF False])
  also have "\<dots> \<le> 2 powi (k + 1)"
    by (rule power_int_increasing) (simp_all add: k_def)
  finally have y: "\<bar>y\<bar> \<le> 2 powi (k + 1)" by simp
  have "(2::real) powi (k + 1) = 2 powi (53 + (k - 52))"
    by (rule arg_cong [where f = "\<lambda>i. 2 powi i"]) simp
  then have top: "(2::real) powi (k + 1) = 2 ^ 53 * u"
    using power_int_add [of "2::real" 53 "k - 52"] by (simp add: u_def)
  have yz: "y = z * u" using u by (simp add: z_def)
  have "\<bar>z\<bar> * u \<le> 2 ^ 53 * u"
    using y u unfolding top yz by (simp add: abs_mult)
  then have z: "\<bar>z\<bar> \<le> 2 ^ 53" using u by simp
  have near: "\<bar>of_int n - z\<bar> \<le> \<bar>of_int m - z\<bar>" for m
    unfolding n_def by (rule round_half_even_nearest)
  have "\<bar>of_int n - z\<bar> \<le> \<bar>of_int (2 ^ 53) - z\<bar>" by (rule near)
  moreover have "\<bar>of_int n - z\<bar> \<le> \<bar>of_int (- (2 ^ 53)) - z\<bar>" by (rule near)
  ultimately have n: "\<bar>of_int n :: real\<bar> \<le> 2 ^ 53"
    using z by simp
  have "\<bar>of_int n * u\<bar> \<le> 2 ^ 53 * u"
    using n u by (simp add: abs_mult)
  then have "\<bar>of_int n * (2::real) powi (k - 52)\<bar> \<le> 2 powi (k + 1)"
    unfolding top by (simp add: u_def)
  then show ?thesis
    unfolding fl by (rule representable_grid [OF k])
qed

lemma representable_double:
  assumes "representable t"
  shows "representable (2 * t)"
proof -
  obtain m e where m: "\<bar>m\<bar> < 2 ^ 53" and e: "- 1074 \<le> e" and t: "t = of_int m * 2 powi e"
    using assms by (auto simp add: representable_def)
  have "(2::real) powi (e + 1) = 2 powi e * 2"
    by (rule power_int_add_1) simp
  then have "2 * t = of_int m * 2 powi (e + 1)" by (simp add: t)
  then show ?thesis using m e by (intro representableI [of m "e + 1"]) auto
qed

lemma upper_half:
  assumes "representable t" and "1 / 2 \<le> t" and "t \<le> 1"
  shows "representable (3 - 2 * t)" and "representable (2 * t - 1)"
proof -
  have half: "(2::real) powi (- 1) = 1 / 2" by (simp add: power_int_minus)
  have "2 powi (- 1) \<le> \<bar>t\<bar>" using assms(2) half by simp
  then obtain n :: int where n: "t = of_int n * 2 powi (- 1 - 52)"
    using representable_multiple [OF assms(1), of "- 1"] by blast
  have p53: "(2::real) powi (- 1 - 52) = 2 powi (0 - 52) / 2"
    using power_int_add [of "2::real" "- 1" "- 52"] half by simp
  have p52: "(2::real) powi (0 - 52) * 2 ^ 52 = 1"
    by (simp add: power_int_minus)
  have eq3: "3 - 2 * t = of_int (3 * 2 ^ 52 - n) * 2 powi (0 - 52)"
    using p52 by (simp add: n p53 algebra_simps)
  have "\<bar>3 - 2 * t\<bar> \<le> 2 powi (0 + 1)" using assms by simp
  then have b3: "\<bar>of_int (3 * 2 ^ 52 - n) * (2::real) powi (0 - 52)\<bar> \<le> 2 powi (0 + 1)"
    by (simp only: eq3)
  show "representable (3 - 2 * t)"
    unfolding eq3 by (rule representable_grid [OF _ b3]) simp
  have eq1: "2 * t - 1 = of_int (2 * n - 2 ^ 53) * 2 powi (- 1 - 52)"
    using p52 by (simp add: n p53 algebra_simps)
  have "\<bar>2 * t - 1\<bar> \<le> 2 powi (- 1 + 1)" using assms by simp
  then have b1: "\<bar>of_int (2 * n - 2 ^ 53) * (2::real) powi (- 1 - 52)\<bar> \<le> 2 powi (- 1 + 1)"
    by (simp only: eq1)
  show "representable (2 * t - 1)"
    unfolding eq1 by (rule representable_grid [OF _ b1]) simp
qed

lemma cubic_binary64:
  assumes rep: "representable t" and t0: "0 \<le> t" and t1: "t \<le> 1"
  defines "A \<equiv> roundTiesToEven (t * t)"
    and "B \<equiv> roundTiesToEven (3 - roundTiesToEven (2 * t))"
  shows "0 \<le> A" and "A \<le> 1" and "1 \<le> B" and "B \<le> 3" and "A * B \<le> 1"
    and "0 \<le> roundTiesToEven (A * B)" and "roundTiesToEven (A * B) \<le> 1"
proof -
  have C: "roundTiesToEven (2 * t) = 2 * t"
    by (rule representable_fixed [OF representable_double [OF rep]])
  have B: "B = roundTiesToEven (3 - 2 * t)" by (simp add: B_def C)
  show A0: "0 \<le> A"
    unfolding A_def by (rule roundTiesToEven_ge [OF representable_consts(1)]) simp
  have "t * t \<le> 1" using t0 t1 by (simp add: mult_le_one)
  then show "A \<le> 1"
    unfolding A_def by (rule roundTiesToEven_le [OF representable_consts(2)])
  show B1: "1 \<le> B"
    unfolding B using t1 by (intro roundTiesToEven_ge [OF representable_consts(2)]) simp
  show B3: "B \<le> 3"
    unfolding B using t0 by (intro roundTiesToEven_le [OF representable_consts(4)]) simp
  show AB: "A * B \<le> 1"
  proof (cases "t \<le> 1 / 2")
    case True
    have "t * t \<le> (1 / 2) * (1 / 2)"
      using t0 True by (intro mult_mono) auto
    then have "A \<le> 1 / 4"
      unfolding A_def by (intro roundTiesToEven_le [OF representable_consts(5)]) simp
    then have "A * B \<le> (1 / 4) * 3"
      using A0 B1 B3 by (intro mult_mono) auto
    then show ?thesis by simp
  next
    case False
    then have half: "1 / 2 \<le> t" by simp
    have Beq: "B = 3 - 2 * t"
      unfolding B by (rule representable_fixed [OF upper_half(1) [OF rep half t1]])
    have "\<bar>A - t * t\<bar> \<le> \<bar>(2 * t - 1) - t * t\<bar>"
      unfolding A_def by (rule roundTiesToEven_nearest [OF upper_half(2) [OF rep half t1]])
    moreover have "(2 * t - 1) - t * t = - ((1 - t) * (1 - t))"
      by (simp add: algebra_simps)
    ultimately have "A \<le> t * t + (1 - t) * (1 - t)"
      by (simp add: abs_if split: if_splits) 
    moreover have "0 \<le> 3 - 2 * t" using t1 by simp
    ultimately have "A * (3 - 2 * t) \<le> (t * t + (1 - t) * (1 - t)) * (3 - 2 * t)"
      by (rule mult_right_mono)
    moreover have "(t * t + (1 - t) * (1 - t)) * (3 - 2 * t) =
                   1 - 2 * ((1 - t) * (1 - t)) * (2 * t - 1)"
      by (simp add: algebra_simps)
    moreover have "0 \<le> 2 * ((1 - t) * (1 - t)) * (2 * t - 1)"
      using half by simp
    ultimately show ?thesis unfolding Beq by linarith
  qed
  have "0 \<le> A * B" using A0 B1 by simp
  then show "0 \<le> roundTiesToEven (A * B)"
    by (rule roundTiesToEven_ge [OF representable_consts(1)])
  show "roundTiesToEven (A * B) \<le> 1"
    by (rule roundTiesToEven_le [OF representable_consts(2) AB])
qed

lemma MAX_VALUE_ge: "3 \<le> MAX_VALUE"
proof -
  have "(2::real) powi 0 \<le> 2 powi 971" by (rule power_int_increasing) auto
  then have "(3::real) * 1 \<le> (2 ^ 53 - 1) * 2 powi 971"
    by (intro mult_mono) auto
  then show ?thesis by (simp add: MAX_VALUE_def)
qed

lemma round64_Finite:
  "\<bar>roundTiesToEven y\<bar> \<le> MAX_VALUE \<Longrightarrow> round64 False y = Finite (roundTiesToEven y)"
  by (simp add: round64_def signed_zero_def Let_def)

lemma round64_representable:
  "representable r \<Longrightarrow> \<bar>r\<bar> \<le> MAX_VALUE \<Longrightarrow> round64 (r < 0) r = Finite r"
  by (simp add: round64_def signed_zero_def Let_def representable_fixed)

lemma binary64_value:
  assumes "is_binary64 (Finite r)"
  shows "representable r" and "\<bar>r\<bar> \<le> MAX_VALUE"
proof -
  obtain e m :: int where e: "- 1074 \<le> e" "e \<le> 971" and m: "- (2 ^ 53) < m" "m < 2 ^ 53"
    and r: "r = of_int m * 2 powi e"
    using assms by (auto simp add: is_binary64_def)
  have am: "\<bar>m\<bar> < 2 ^ 53" using m by simp
  show "representable r" by (rule representableI [OF am e(1) r])
  have "\<bar>m\<bar> \<le> 2 ^ 53 - 1" using am by simp
  then have "of_int \<bar>m\<bar> \<le> (of_int (2 ^ 53 - 1) :: real)"
    by (simp only: of_int_le_iff)
  then have m1: "\<bar>of_int m :: real\<bar> \<le> 2 ^ 53 - 1" by simp
  have e1: "(2::real) powi e \<le> 2 powi 971"
    using e(2) by (intro power_int_increasing) auto
  have "\<bar>r\<bar> = \<bar>of_int m\<bar> * 2 powi e"
    by (simp add: r abs_mult zero_less_power_int less_imp_le)
  also have "\<dots> \<le> (2 ^ 53 - 1) * 2 powi 971"
    using m1 e1 by (intro mult_mono) (auto simp add: zero_less_power_int less_imp_le)
  finally show "\<bar>r\<bar> \<le> MAX_VALUE"
    by (simp only: MAX_VALUE_def)
qed

lemma unit_edges:
  assumes "is_binary64 x"
  shows "num_div (num_sub x (Finite 0)) (num_sub (Finite 1) (Finite 0)) = x"
proof -
  have one: "num_sub (Finite 1) (Finite 0) = Finite 1"
    using round64_representable [OF representable_consts(2)] MAX_VALUE_ge
    by (simp add: num_sub_def num_add_def)
  show ?thesis
  proof (cases x)
    case (Finite r)
    have rr: "round64 (r < 0) r = Finite r"
      using binary64_value [of r] assms Finite by (intro round64_representable) auto
    then have "num_sub x (Finite 0) = Finite r"
      by (simp add: Finite num_sub_def num_add_def)
    then show ?thesis
      unfolding one using rr by (simp add: Finite num_div_def)
  next
    case NegZero
    have z: "round64 True 0 = NegZero"
      using MAX_VALUE_ge by (simp add: round64_def roundTiesToEven_def signed_zero_def)
    have "num_sub x (Finite 0) = NegZero"
      by (simp add: NegZero num_sub_def num_add_def z)
    then show ?thesis
      unfolding one by (simp add: NegZero num_div_def z)
  next
    case PosInf
    show ?thesis
      unfolding one PosInf by (simp add: num_sub_def num_add_def num_div_def signed_inf_def)
  next
    case NegInf
    show ?thesis
      unfolding one NegInf by (simp add: num_sub_def num_add_def num_div_def signed_inf_def)
  next
    case NaN
    show ?thesis
      unfolding one NaN by (simp add: num_sub_def num_add_def num_div_def)
  qed
qed

lemma clamp01_unit:
  assumes "is_binary64 x" and "x \<noteq> NaN"
  shows "\<exists>t. clamp01 x = Finite t \<and> representable t \<and> 0 \<le> t \<and> t \<le> 1 \<and>
             (num_le x (Finite 0) \<longrightarrow> t = 0) \<and> (num_ge x (Finite 1) \<longrightarrow> t = 1) \<and>
             (\<forall>r. x = Finite r \<and> 0 \<le> r \<and> r \<le> 1 \<longrightarrow> t = r)"
proof (cases x)
  case (Finite r)
  then show ?thesis
    using binary64_value(1) [of r] assms(1) representable_consts
    by (auto simp add: clamp01_def num_ge_def)
qed (use assms(2) representable_consts in \<open>auto simp add: clamp01_def num_ge_def\<close>)

lemma num_neg_Finite:
  "val (num_neg (Finite c)) = - c" "num_neg (Finite c) \<noteq> NaN" "\<not> is_inf (num_neg (Finite c))"
  by simp_all

lemma cubic_number:
  assumes "representable t" and "0 \<le> t" and "t \<le> 1"
  shows "num_mul (num_mul (Finite t) (Finite t))
           (num_sub (Finite 3) (num_mul (Finite 2) (Finite t))) = Finite (cubic64 t)"
proof -
  note c = cubic_binary64 [OF assms]
  have C: "roundTiesToEven (2 * t) = 2 * t"
    by (rule representable_fixed [OF representable_double [OF assms(1)]])
  have A: "num_mul (Finite t) (Finite t) = Finite (roundTiesToEven (t * t))"
    using c(1,2) MAX_VALUE_ge assms(2)
    by (simp add: num_mul_def round64_Finite)
  have "num_mul (Finite 2) (Finite t) = Finite (2 * t)"
    using MAX_VALUE_ge assms(2,3) C by (simp add: num_mul_def round64_Finite)
  moreover have "round64 False (3 - 2 * t) = Finite (roundTiesToEven (3 - 2 * t))"
    using c(3,4) MAX_VALUE_ge unfolding C by (intro round64_Finite) linarith
  ultimately have B: "num_sub (Finite 3) (num_mul (Finite 2) (Finite t)) =
                Finite (roundTiesToEven (3 - roundTiesToEven (2 * t)))"
    unfolding C by (simp add: num_sub_def num_add_def num_neg_Finite del: num_neg.simps)
  show ?thesis
    unfolding A B cubic64_def
    using c(1,3,6,7) MAX_VALUE_ge
    by (simp add: num_mul_def round64_Finite)
qed

lemma smoothstep_unit:
  assumes "is_binary64 x" and "x \<noteq> NaN"
  shows "\<exists>t. clamp01 x = Finite t \<and> representable t \<and> 0 \<le> t \<and> t \<le> 1 \<and>
             smoothstep (Finite 0) (Finite 1) x = Finite (cubic64 t)"
proof -
  obtain t where t: "clamp01 x = Finite t" "representable t" "0 \<le> t" "t \<le> 1"
    using clamp01_unit [OF assms] by blast
  have "smoothstep (Finite 0) (Finite 1) x = Finite (cubic64 t)"
    using cubic_number [OF t(2,3,4)]
    by (simp add: smoothstep_def unit_edges [OF assms(1)] t(1) Let_def)
  then show ?thesis using t by blast
qed

lemma cubic64_ends: "cubic64 0 = 0" "cubic64 1 = 1"
  using representable_fixed [OF representable_consts(1)]
    representable_fixed [OF representable_consts(2)]
    representable_fixed [OF representable_consts(3)]
    representable_fixed [OF representable_consts(4)]
  by (simp_all add: cubic64_def)

lemma roundTiesToEven_binade:
  assumes "2 powi k \<le> \<bar>y\<bar>" and "\<bar>y\<bar> < 2 powi (k + 1)" and "- 1022 \<le> k"
  shows "roundTiesToEven y = of_int (round_half_even (y / 2 powi (k - 52))) * 2 powi (k - 52)"
proof -
  have pos: "0 < (2::real) powi k" by (simp add: zero_less_power_int)
  have "y \<noteq> 0"
  proof
    assume "y = 0"
    then have "(2::real) powi k \<le> 0" using assms(1) by simp
    then show False using pos by linarith
  qed
  moreover have "ulp_exponent y = k - 52"
    using floor_log_binade [OF assms(1,2)] assms(3) by (simp add: ulp_exponent_def)
  ultimately show ?thesis by (simp add: roundTiesToEven_def)
qed

lemma round_half_even_eq:
  assumes "\<bar>z - of_int n\<bar> < 1 / 2"
  shows "round_half_even z = n"
proof -
  have "\<bar>of_int (round_half_even z) - z\<bar> \<le> \<bar>of_int n - z\<bar>"
    by (rule round_half_even_nearest)
  then have "\<bar>of_int (round_half_even z) - (of_int n :: real)\<bar> < 1"
    using assms by linarith
  then have "\<bar>of_int (round_half_even z - n) :: real\<bar> < 1" by simp
  then have "\<bar>round_half_even z - n\<bar> < 1"
    by (metis of_int_abs of_int_less_1_iff)
  then show ?thesis by linarith
qed

lemma round_in_half_one:
  assumes "1 / 2 \<le> y" and "y < 1" and "\<bar>y * 2 ^ 53 - of_int n\<bar> < 1 / 2"
  shows "roundTiesToEven y = of_int n / 2 ^ 53"
proof -
  have p: "(2::real) powi (- 1 - 52) = 1 / 2 ^ 53"
    by (simp add: power_int_minus_divide)
  have "roundTiesToEven y =
        of_int (round_half_even (y / 2 powi (- 1 - 52))) * 2 powi (- 1 - 52)"
    using assms(1,2) by (intro roundTiesToEven_binade) (simp_all add: power_int_minus_divide)
  then show ?thesis
    unfolding p using round_half_even_eq [OF assms(3)] by simp
qed

lemma round_in_one_two:
  assumes "1 \<le> y" and "y < 2" and "\<bar>y * 2 ^ 52 - of_int n\<bar> < 1 / 2"
  shows "roundTiesToEven y = of_int n / 2 ^ 52"
proof -
  have p: "(2::real) powi (0 - 52) = 1 / 2 ^ 52"
    by (simp add: power_int_minus_divide)
  have "roundTiesToEven y =
        of_int (round_half_even (y / 2 powi (0 - 52))) * 2 powi (0 - 52)"
    using assms(1,2) by (intro roundTiesToEven_binade) simp_all
  then show ?thesis
    unfolding p using round_half_even_eq [OF assms(3)] by simp
qed

lemma cubic64_at_low: "cubic64 (7505999378950827 / 2 ^ 53) = 8339999309945364 / 2 ^ 53"
proof -
  have A: "roundTiesToEven (7505999378950827 / 2 ^ 53 * (7505999378950827 / 2 ^ 53)) =
           of_int 6254999482459023 / 2 ^ 53"
    by (rule round_in_half_one) simp_all
  have C: "roundTiesToEven (2 * (7505999378950827 / 2 ^ 53)) = of_int 7505999378950827 / 2 ^ 52"
    by (rule round_in_one_two) simp_all
  have B: "roundTiesToEven (3 - of_int 7505999378950827 / 2 ^ 52) =
           of_int 6004799503160661 / 2 ^ 52"
    by (rule round_in_one_two) simp_all
  have R: "roundTiesToEven (of_int 6254999482459023 / 2 ^ 53 * (of_int 6004799503160661 / 2 ^ 52)) =
           of_int 8339999309945364 / 2 ^ 53"
    by (rule round_in_half_one) simp_all
  show ?thesis
    unfolding cubic64_def A C B R by simp
qed

lemma cubic64_at_high: "cubic64 (7505999378950828 / 2 ^ 53) = 8339999309945363 / 2 ^ 53"
proof -
  have A: "roundTiesToEven (7505999378950828 / 2 ^ 53 * (7505999378950828 / 2 ^ 53)) =
           of_int 6254999482459024 / 2 ^ 53"
    by (rule round_in_half_one) simp_all
  have C: "roundTiesToEven (2 * (7505999378950828 / 2 ^ 53)) = of_int 7505999378950828 / 2 ^ 52"
    by (rule round_in_one_two) simp_all
  have B: "roundTiesToEven (3 - of_int 7505999378950828 / 2 ^ 52) =
           of_int 6004799503160660 / 2 ^ 52"
    by (rule round_in_one_two) simp_all
  have R: "roundTiesToEven (of_int 6254999482459024 / 2 ^ 53 * (of_int 6004799503160660 / 2 ^ 52)) =
           of_int 8339999309945363 / 2 ^ 53"
    by (rule round_in_half_one) simp_all
  show ?thesis
    unfolding cubic64_def A C B R by simp
qed

lemma is_binary64_I:
  assumes "- 1074 \<le> e" and "e \<le> 971" and "- (2 ^ 53) < m" and "m < 2 ^ 53"
    and "r = of_int m * 2 powi e"
  shows "is_binary64 (Finite r)"
proof -
  have "\<exists>e\<in>{- 1074..971}. \<exists>m\<in>{- (2 ^ 53) <..< 2 ^ 53}. r = of_int m * 2 powi e"
    using assms by (intro bexI [of _ e] bexI [of _ m]) simp_all
  then show ?thesis by (simp add: is_binary64_def)
qed

lemma smoothstep_inside:
  assumes "is_binary64 (Finite r)" and "0 < r" and "r < 1"
  shows "smoothstep (Finite 0) (Finite 1) (Finite r) = Finite (cubic64 r)"
proof -
  have "clamp01 (Finite r) = Finite r"
    using assms(2,3) by (simp add: clamp01_def num_ge_def)
  then show ?thesis
    using smoothstep_unit [OF assms(1)] by auto
qed

lemma round_half_even_half: "\<bar>of_int (round_half_even z) - z\<bar> \<le> 1 / 2"
proof -
  have "\<bar>of_int (round_half_even z) - z\<bar> \<le> \<bar>of_int \<lfloor>z\<rfloor> - z\<bar>"
    and "\<bar>of_int (round_half_even z) - z\<bar> \<le> \<bar>of_int (\<lfloor>z\<rfloor> + 1) - z\<bar>"
    by (rule round_half_even_nearest)+
  moreover have "of_int \<lfloor>z\<rfloor> \<le> z" and "z < of_int \<lfloor>z\<rfloor> + 1" by linarith+
  ultimately show ?thesis by simp
qed

lemma rounding_error:
  assumes k: "- 1022 \<le> k" and y: "\<bar>y\<bar> \<le> 2 powi (k + 1)"
  shows "\<bar>roundTiesToEven y - y\<bar> \<le> 2 powi (k - 53)"
proof -
  define u :: real where "u = 2 powi (k - 52)"
  define z where "z = y / u"
  define n where "n = round_half_even z"
  have u: "0 < u" by (simp add: u_def zero_less_power_int)
  have "(2::real) powi (k + 1) = 2 powi (53 + (k - 52))"
    by (rule arg_cong [where f = "\<lambda>i. 2 powi i"]) simp
  then have top: "(2::real) powi (k + 1) = 2 ^ 53 * u"
    using power_int_add [of "2::real" 53 "k - 52"] by (simp add: u_def)
  have "(2::real) powi (k - 52) = 2 powi (1 + (k - 53))"
    by (rule arg_cong [where f = "\<lambda>i. 2 powi i"]) simp
  then have half: "u / 2 = 2 powi (k - 53)"
    using power_int_add [of "2::real" 1 "k - 53"] by (simp add: u_def)
  have yz: "y = z * u" using u by (simp add: z_def)
  have "\<bar>z\<bar> * u \<le> 2 ^ 53 * u"
    using y u unfolding top yz by (simp add: abs_mult)
  then have z: "\<bar>z\<bar> \<le> 2 ^ 53" using u by simp
  have near: "\<bar>of_int n - z\<bar> \<le> \<bar>of_int m - z\<bar>" for m
    unfolding n_def by (rule round_half_even_nearest)
  have "\<bar>of_int n - z\<bar> \<le> \<bar>of_int (2 ^ 53) - z\<bar>" by (rule near)
  moreover have "\<bar>of_int n - z\<bar> \<le> \<bar>of_int (- (2 ^ 53)) - z\<bar>" by (rule near)
  ultimately have n: "\<bar>of_int n :: real\<bar> \<le> 2 ^ 53"
    using z by simp
  have "\<bar>of_int n * u\<bar> \<le> 2 ^ 53 * u"
    using n u by (simp add: abs_mult)
  then have "\<bar>of_int n * (2::real) powi (k - 52)\<bar> \<le> 2 powi (k + 1)"
    unfolding top by (simp add: u_def)
  then have "representable (of_int n * 2 powi (k - 52))"
    by (rule representable_grid [OF k])
  then have "\<bar>roundTiesToEven y - y\<bar> \<le> \<bar>of_int n * u - y\<bar>"
    unfolding u_def by (rule roundTiesToEven_nearest)
  also have "\<dots> = \<bar>of_int n - z\<bar> * u"
    unfolding z_def by (rule scaled_abs [OF u])
  also have "\<dots> \<le> (1 / 2) * u"
    using round_half_even_half [of z] u unfolding n_def by (intro mult_right_mono) auto
  finally show ?thesis using half by simp
qed

lemma cubic64_error:
  assumes rep: "representable t" and t0: "0 \<le> t" and t1: "t \<le> 1"
  shows "\<bar>cubic64 t - t * t * (3 - 2 * t)\<bar> \<le> 1 / 2 ^ 51"
proof -
  define A where "A = roundTiesToEven (t * t)"
  define B where "B = roundTiesToEven (3 - roundTiesToEven (2 * t))"
  note c = cubic_binary64 [OF assms, folded A_def B_def]
  have C: "roundTiesToEven (2 * t) = 2 * t"
    by (rule representable_fixed [OF representable_double [OF rep]])
  have tt: "0 \<le> t * t" "t * t \<le> 1" using t0 t1 by (simp_all add: mult_le_one)
  have eA: "\<bar>A - t * t\<bar> \<le> 1 / 2 ^ 54"
    using rounding_error [of "- 1" "t * t"] tt
    by (simp add: A_def power_int_minus_divide)
  have eB: "\<bar>B - (3 - 2 * t)\<bar> \<le> 1 / 2 ^ 52"
    using rounding_error [of 1 "3 - 2 * t"] t0 t1
    by (simp add: B_def C power_int_minus_divide)
  have eR: "\<bar>cubic64 t - A * B\<bar> \<le> 1 / 2 ^ 54"
    using rounding_error [of "- 1" "A * B"] c(1,3,5)
    by (simp add: cubic64_def A_def B_def power_int_minus_divide)
  have "A * B - t * t * (3 - 2 * t) = (A - t * t) * B + t * t * (B - (3 - 2 * t))"
    by (simp add: algebra_simps)
  then have "\<bar>A * B - t * t * (3 - 2 * t)\<bar> \<le> \<bar>A - t * t\<bar> * \<bar>B\<bar> + \<bar>t * t\<bar> * \<bar>B - (3 - 2 * t)\<bar>"
    by (metis abs_mult abs_triangle_ineq)
  also have "\<dots> \<le> (1 / 2 ^ 54) * 3 + 1 * (1 / 2 ^ 52)"
    using eA eB c(3,4) tt by (intro add_mono mult_mono) auto
  finally have "\<bar>A * B - t * t * (3 - 2 * t)\<bar> \<le> 7 / 2 ^ 54" by simp
  then have "\<bar>cubic64 t - t * t * (3 - 2 * t)\<bar> \<le> 1 / 2 ^ 54 + 7 / 2 ^ 54"
    using eR by linarith
  then show ?thesis by simp
qed

lemma cubic_mono:
  fixes a b :: real
  assumes "0 \<le> a" "a \<le> b" "b \<le> 1"
  shows "a * a * (3 - 2 * a) \<le> b * b * (3 - 2 * b)"
proof -
  have eq: "b * b * (3 - 2 * b) - a * a * (3 - 2 * a) =
            (b - a) * (a * (3 - 2 * a - b) + b * (3 - 2 * b - a))"
    by (simp add: algebra_simps)
  have "0 \<le> a * (3 - 2 * a - b)"
    using assms by (intro mult_nonneg_nonneg) auto
  moreover have "0 \<le> b * (3 - 2 * b - a)"
    using assms by (intro mult_nonneg_nonneg) auto
  ultimately have "0 \<le> (b - a) * (a * (3 - 2 * a - b) + b * (3 - 2 * b - a))"
    using assms by (intro mult_nonneg_nonneg) auto
  with eq show ?thesis by linarith
qed

lemma cubic64_almost_mono:
  assumes "representable a" "representable b" "0 \<le> a" "a \<le> b" "b \<le> 1"
  shows "cubic64 a \<le> cubic64 b + 1 / 2 ^ 50"
proof -
  have "\<bar>cubic64 a - a * a * (3 - 2 * a)\<bar> \<le> 1 / 2 ^ 51"
    using assms by (intro cubic64_error) auto
  moreover have "\<bar>cubic64 b - b * b * (3 - 2 * b)\<bar> \<le> 1 / 2 ^ 51"
    using assms by (intro cubic64_error) auto
  moreover note cubic_mono [OF assms(3,4,5)]
  ultimately have "cubic64 a \<le> cubic64 b + (1 / 2 ^ 51 + 1 / 2 ^ 51)" by linarith
  then show ?thesis by simp
qed

lemma clamp01_mono:
  assumes "num_le x x'" and "clamp01 x = Finite t" and "clamp01 x' = Finite t'"
  shows "t \<le> t'"
  using assms
  by (cases x; cases x') (auto simp add: clamp01_def num_ge_def split: if_splits)

lemma smoothstep_almost_mono:
  assumes "is_binary64 x" "x \<noteq> NaN" "is_binary64 x'" "x' \<noteq> NaN" "num_le x x'"
    and "smoothstep (Finite 0) (Finite 1) x = Finite y"
  shows "\<exists>y'. smoothstep (Finite 0) (Finite 1) x' = Finite y' \<and> y \<le> y' + 1 / 2 ^ 50"
proof -
  obtain t where t: "clamp01 x = Finite t" "representable t" "0 \<le> t" "t \<le> 1"
    and s: "smoothstep (Finite 0) (Finite 1) x = Finite (cubic64 t)"
    using smoothstep_unit [OF assms(1,2)] by blast
  obtain t' where t': "clamp01 x' = Finite t'" "representable t'" "0 \<le> t'" "t' \<le> 1"
    and s': "smoothstep (Finite 0) (Finite 1) x' = Finite (cubic64 t')"
    using smoothstep_unit [OF assms(3,4)] by blast
  have "t \<le> t'" by (rule clamp01_mono [OF assms(5) t(1) t'(1)])
  then have "cubic64 t \<le> cubic64 t' + 1 / 2 ^ 50"
    using t t' by (intro cubic64_almost_mono) auto
  moreover have "y = cubic64 t" using s assms(6) by simp
  ultimately show ?thesis using s' by simp
qed

section \<open>The claims\<close>

subsection \<open>C1: a name the catalog does not know\<close>

text \<open>
  Claim C1 says that for an augmentation name without a catalog entry the component
  signals the condition, renders nothing, and that the failure stays local to the one
  control. The component has a branch that does so (it logs to \<open>console.error\<close> and
  returns an empty fragment), but the \<open>throw\<close> in its second line runs first: for the
  name \<open>Foo\<close> and an empty catalog the call ends in the exception, which leaves the
  component for whoever rendered it, and the empty fragment is not returned.
\<close>

theorem missing_entry_throws:
  "PurchaseableAugmentation
     \<lparr>Augmentations = Map.empty, NeuroFluxGovernor = ''NeuroFlux Governor'',
      SuppressBuyAugmentationConfirmation = False, getNextNeurofluxLevel = 1\<rparr>
     \<lparr>augName = ''Foo'',
      faction = \<lparr>playerReputation = 0,
                 getInfo = \<lparr>augmentationPriceMult = 1, augmentationRepRequirementMult = 1\<rparr>\<rparr>,
      props_p = \<lparr>money = 0, queuedAugmentations = [], augmentations = []\<rparr>,
      props_owned = None\<rparr>
   = Inl (Error ''aug Foo does not exists'')"
  by (simp add: PurchaseableAugmentation_def)

subsection \<open>C6: the effective cost and reputation requirement\<close>

text \<open>
  Claim C6: for every entry, faction and player, the effective cost is the base cost
  times the faction's price multiplier, the effective reputation requirement is the
  base requirement times the faction's reputation multiplier, and the reputation is
  sufficient exactly when the player's reputation with the faction is at least the
  effective requirement; a base requirement of 500 with a multiplier of 2 and a
  reputation of 1200 gives a requirement of 1000, which is met.
\<close>

theorem effective_values:
  "effectiveCost aug props = baseCost aug * augmentationPriceMult (getInfo (faction props)) \<and>
   effectiveRepRequirement aug props =
     baseRepRequirement aug * augmentationRepRequirementMult (getInfo (faction props)) \<and>
   hasSufficientRep aug props =
     (playerReputation (faction props) \<ge> effectiveRepRequirement aug props) \<and>
   (baseRepRequirement aug = 500 \<and> augmentationRepRequirementMult (getInfo (faction props)) = 2 \<and>
    playerReputation (faction props) = 1200 \<longrightarrow>
      effectiveRepRequirement aug props = 1000 \<and> hasSufficientRep aug props)"
  by (simp add: effectiveCost_def effectiveRepRequirement_def hasSufficientRep_def
      getMoneyCost_def getRepCost_def hasReputation_def)

text \<open>The scenario of the claim, at an entry without prerequisites.\<close>

theorem effective_values_witness:
  "effectiveRepRequirement
     \<lparr>name = ''A'', baseCost = 1000, baseRepRequirement = 500, prereqs = [], owned = False,
      info = InfoString '''', stats = ''''\<rparr>
     \<lparr>augName = ''A'',
      faction = \<lparr>playerReputation = 1200,
                 getInfo = \<lparr>augmentationPriceMult = 1, augmentationRepRequirementMult = 2\<rparr>\<rparr>,
      props_p = \<lparr>money = 0, queuedAugmentations = [], augmentations = []\<rparr>,
      props_owned = None\<rparr> = 1000 \<and>
   hasSufficientRep
     \<lparr>name = ''A'', baseCost = 1000, baseRepRequirement = 500, prereqs = [], owned = False,
      info = InfoString '''', stats = ''''\<rparr>
     \<lparr>augName = ''A'',
      faction = \<lparr>playerReputation = 1200,
                 getInfo = \<lparr>augmentationPriceMult = 1, augmentationRepRequirementMult = 2\<rparr>\<rparr>,
      props_p = \<lparr>money = 0, queuedAugmentations = [], augmentations = []\<rparr>,
      props_owned = None\<rparr>"
  using effective_values
    [of "\<lparr>name = ''A'', baseCost = 1000, baseRepRequirement = 500, prereqs = [], owned = False,
          info = InfoString '''', stats = ''''\<rparr>"
        "\<lparr>augName = ''A'',
          faction = \<lparr>playerReputation = 1200,
                     getInfo = \<lparr>augmentationPriceMult = 1, augmentationRepRequirementMult = 2\<rparr>\<rparr>,
          props_p = \<lparr>money = 0, queuedAugmentations = [], augmentations = []\<rparr>,
          props_owned = None\<rparr>"]
  by simp

subsection \<open>C4: sufficient funds\<close>

text \<open>
  As claim C4 states it, the funds are sufficient unless the effective cost is
  positive and the money is below it. The component tests the base cost against zero
  instead: with a base cost of 5, a price multiplier of 0 and a balance of -1 the
  effective cost is 0, not positive, and yet the funds count as insufficient.
\<close>

theorem funds_positive_cost_counterexample:
  "\<not> (hasSufficientFunds
        \<lparr>name = ''A'', baseCost = 5, baseRepRequirement = 0, prereqs = [], owned = False,
         info = InfoString '''', stats = ''''\<rparr>
        \<lparr>augName = ''A'',
         faction = \<lparr>playerReputation = 0,
                    getInfo = \<lparr>augmentationPriceMult = 0, augmentationRepRequirementMult = 1\<rparr>\<rparr>,
         props_p = \<lparr>money = - 1, queuedAugmentations = [], augmentations = []\<rparr>,
         props_owned = None\<rparr>
       = (\<not> (effectiveCost
               \<lparr>name = ''A'', baseCost = 5, baseRepRequirement = 0, prereqs = [], owned = False,
                info = InfoString '''', stats = ''''\<rparr>
               \<lparr>augName = ''A'',
                faction = \<lparr>playerReputation = 0,
                           getInfo = \<lparr>augmentationPriceMult = 0,
                                      augmentationRepRequirementMult = 1\<rparr>\<rparr>,
                props_p = \<lparr>money = - 1, queuedAugmentations = [], augmentations = []\<rparr>,
                props_owned = None\<rparr> > 0 \<and>
              - 1 <
              effectiveCost
               \<lparr>name = ''A'', baseCost = 5, baseRepRequirement = 0, prereqs = [], owned = False,
                info = InfoString '''', stats = ''''\<rparr>
               \<lparr>augName = ''A'',
                faction = \<lparr>playerReputation = 0,
                           getInfo = \<lparr>augmentationPriceMult = 0,
                                      augmentationRepRequirementMult = 1\<rparr>\<rparr>,
                props_p = \<lparr>money = - 1, queuedAugmentations = [], augmentations = []\<rparr>,
                props_owned = None\<rparr>)))"
  by (simp add: hasSufficientFunds_def hasCost_def effectiveCost_def getMoneyCost_def)

text \<open>
  Claim C4, amended: for every entry, faction and player, the funds are sufficient
  unless the base cost is not zero and the money is below the effective cost; when the
  money is not negative this is the same as: unless the effective cost is positive and
  the money is below it. A base cost of 1000 with a price multiplier of 1.5 and a
  balance of 1400 gives an effective cost of 1500 and insufficient funds.
\<close>

theorem funds_sufficient_iff:
  "hasSufficientFunds aug props =
     (\<not> (baseCost aug \<noteq> 0 \<and> money (props_p props) < effectiveCost aug props)) \<and>
   (0 \<le> money (props_p props) \<longrightarrow>
      hasSufficientFunds aug props =
        (\<not> (effectiveCost aug props > 0 \<and> money (props_p props) < effectiveCost aug props))) \<and>
   (baseCost aug = 1000 \<and> augmentationPriceMult (getInfo (faction props)) = 1.5 \<and>
    money (props_p props) = 1400 \<longrightarrow>
      effectiveCost aug props = 1500 \<and> \<not> hasSufficientFunds aug props)"
  by (auto simp add: hasSufficientFunds_def hasCost_def effectiveCost_def getMoneyCost_def)

text \<open>The scenario of the claim.\<close>

theorem funds_sufficient_iff_witness:
  "(0 :: real) \<le> 1400 \<and>
   effectiveCost
     \<lparr>name = ''A'', baseCost = 1000, baseRepRequirement = 500, prereqs = [], owned = False,
      info = InfoString '''', stats = ''''\<rparr>
     \<lparr>augName = ''A'',
      faction = \<lparr>playerReputation = 1200,
                 getInfo = \<lparr>augmentationPriceMult = 1.5, augmentationRepRequirementMult = 2\<rparr>\<rparr>,
      props_p = \<lparr>money = 1400, queuedAugmentations = [], augmentations = []\<rparr>,
      props_owned = None\<rparr> = 1500 \<and>
   \<not> hasSufficientFunds
     \<lparr>name = ''A'', baseCost = 1000, baseRepRequirement = 500, prereqs = [], owned = False,
      info = InfoString '''', stats = ''''\<rparr>
     \<lparr>augName = ''A'',
      faction = \<lparr>playerReputation = 1200,
                 getInfo = \<lparr>augmentationPriceMult = 1.5, augmentationRepRequirementMult = 2\<rparr>\<rparr>,
      props_p = \<lparr>money = 1400, queuedAugmentations = [], augmentations = []\<rparr>,
      props_owned = None\<rparr>"
  using funds_sufficient_iff
    [of "\<lparr>name = ''A'', baseCost = 1000, baseRepRequirement = 500, prereqs = [], owned = False,
          info = InfoString '''', stats = ''''\<rparr>"
        "\<lparr>augName = ''A'',
          faction = \<lparr>playerReputation = 1200,
                     getInfo = \<lparr>augmentationPriceMult = 1.5, augmentationRepRequirementMult = 2\<rparr>\<rparr>,
          props_p = \<lparr>money = 1400, queuedAugmentations = [], augmentations = []\<rparr>,
          props_owned = None\<rparr>"]
  by simp

subsection \<open>C8: the purchase confirmation gate\<close>

text \<open>
  Claim C8: a click while the control is not disabled has one of two outcomes. With the
  setting that suppresses the confirmation, the purchase is made at once and the view
  is rendered again; without it, the confirmation popup is created and nothing else
  happens: no purchase is made by the click itself.
\<close>

theorem click_gate:
  "\<not> is_disabled \<Longrightarrow>
   (SuppressBuyAugmentationConfirmation g \<longrightarrow>
      handleClick g aug props is_disabled = [purchaseAugmentation aug (faction props), rerender]) \<and>
   (\<not> SuppressBuyAugmentationConfirmation g \<longrightarrow>
      handleClick g aug props is_disabled =
        [createPopup ''purchase-augmentation-popup'' aug (faction props) (props_p props)])"
  by (simp add: handleClick_def)

text \<open>A click with the confirmation switched on: only the popup.\<close>

theorem click_gate_witness:
  "\<not> False \<and>
   \<not> SuppressBuyAugmentationConfirmation
       \<lparr>Augmentations = Map.empty, NeuroFluxGovernor = ''NeuroFlux Governor'',
        SuppressBuyAugmentationConfirmation = False, getNextNeurofluxLevel = 1\<rparr> \<and>
   handleClick
     \<lparr>Augmentations = Map.empty, NeuroFluxGovernor = ''NeuroFlux Governor'',
      SuppressBuyAugmentationConfirmation = False, getNextNeurofluxLevel = 1\<rparr>
     \<lparr>name = ''A'', baseCost = 1000, baseRepRequirement = 500, prereqs = [], owned = False,
      info = InfoString '''', stats = ''''\<rparr>
     \<lparr>augName = ''A'',
      faction = \<lparr>playerReputation = 1200,
                 getInfo = \<lparr>augmentationPriceMult = 1, augmentationRepRequirementMult = 1\<rparr>\<rparr>,
      props_p = \<lparr>money = 2000, queuedAugmentations = [], augmentations = []\<rparr>,
      props_owned = None\<rparr>
     False =
   [createPopup ''purchase-augmentation-popup''
      \<lparr>name = ''A'', baseCost = 1000, baseRepRequirement = 500, prereqs = [], owned = False,
       info = InfoString '''', stats = ''''\<rparr>
      \<lparr>playerReputation = 1200,
       getInfo = \<lparr>augmentationPriceMult = 1, augmentationRepRequirementMult = 1\<rparr>\<rparr>
      \<lparr>money = 2000, queuedAugmentations = [], augmentations = []\<rparr>]"
  using click_gate
    [of False
        "\<lparr>Augmentations = Map.empty, NeuroFluxGovernor = ''NeuroFlux Governor'',
          SuppressBuyAugmentationConfirmation = False, getNextNeurofluxLevel = 1\<rparr>"
        "\<lparr>name = ''A'', baseCost = 1000, baseRepRequirement = 500, prereqs = [], owned = False,
          info = InfoString '''', stats = ''''\<rparr>"
        "\<lparr>augName = ''A'',
          faction = \<lparr>playerReputation = 1200,
                     getInfo = \<lparr>augmentationPriceMult = 1, augmentationRepRequirementMult = 1\<rparr>\<rparr>,
          props_p = \<lparr>money = 2000, queuedAugmentations = [], augmentations = []\<rparr>,
          props_owned = None\<rparr>"]
  by simp

subsection \<open>C10: the opacity of the black screen\<close>

text \<open>
  As claim C10 states it, \<open>smoothstep(0, 1, x)\<close> does not decrease when \<open>x\<close> grows.
  That holds of the exact cubic, not of its value in binary64: at
  \<open>x = 7505999378950827 / 2 ^ 53\<close> (printed as 0.8333333333333334) the result is
  \<open>8339999309945364 / 2 ^ 53\<close> (0.925925925925926), and at the next number above,
  \<open>7505999378950828 / 2 ^ 53\<close>, it is \<open>8339999309945363 / 2 ^ 53\<close>
  (0.9259259259259259), which is smaller.
\<close>

theorem smoothstep_monotone_counterexample:
  "num_le (Finite (7505999378950827 / 2 ^ 53)) (Finite (7505999378950828 / 2 ^ 53)) \<and>
   \<not> num_le (smoothstep (Finite 0) (Finite 1) (Finite (7505999378950827 / 2 ^ 53)))
             (smoothstep (Finite 0) (Finite 1) (Finite (7505999378950828 / 2 ^ 53)))"
proof -
  have b1: "is_binary64 (Finite (7505999378950827 / 2 ^ 53))"
    by (rule is_binary64_I [of "- 53" 7505999378950827]) (simp_all add: power_int_minus_divide)
  have b2: "is_binary64 (Finite (7505999378950828 / 2 ^ 53))"
    by (rule is_binary64_I [of "- 53" 7505999378950828]) (simp_all add: power_int_minus_divide)
  have s1: "smoothstep (Finite 0) (Finite 1) (Finite (7505999378950827 / 2 ^ 53)) =
            Finite (8339999309945364 / 2 ^ 53)"
    unfolding cubic64_at_low [symmetric] by (rule smoothstep_inside [OF b1]) simp_all
  have s2: "smoothstep (Finite 0) (Finite 1) (Finite (7505999378950828 / 2 ^ 53)) =
            Finite (8339999309945363 / 2 ^ 53)"
    unfolding cubic64_at_high [symmetric] by (rule smoothstep_inside [OF b2]) simp_all
  show ?thesis unfolding s1 s2 by simp
qed

text \<open>
  Claim C10, amended: for every number \<open>x\<close> other than NaN (finite, a zero or an
  infinity), \<open>smoothstep(0, 1, x)\<close> as the code computes it is a finite number between
  0 and 1, it is 0 for \<open>x <= 0\<close> and 1 for \<open>x >= 1\<close>, and it is monotone up to rounding:
  for \<open>x <= x'\<close> the value at \<open>x\<close> exceeds the value at \<open>x'\<close> by at most \<open>1 / 2 ^ 50\<close>.
  So the opacity the black screen is drawn with lies between 0 and 1 whatever number
  the state \<open>opacity\<close> has reached, also one below 0 or above 1.
\<close>

theorem smoothstep_opacity:
  assumes "is_binary64 x" and "x \<noteq> NaN"
  shows "\<exists>y. smoothstep (Finite 0) (Finite 1) x = Finite y \<and>
             BlackScreen_opacity x = Finite y \<and>
             0 \<le> y \<and> y \<le> 1 \<and>
             (num_le x (Finite 0) \<longrightarrow> y = 0) \<and>
             (num_ge x (Finite 1) \<longrightarrow> y = 1) \<and>
             (\<forall>x'. is_binary64 x' \<and> x' \<noteq> NaN \<and> num_le x x' \<longrightarrow>
                (\<exists>y'. smoothstep (Finite 0) (Finite 1) x' = Finite y' \<and>
                      y \<le> y' + 1 / 2 ^ 50))"
proof -
  obtain t where t: "clamp01 x = Finite t" "representable t" "0 \<le> t" "t \<le> 1"
    and s: "smoothstep (Finite 0) (Finite 1) x = Finite (cubic64 t)"
    using smoothstep_unit [OF assms] by blast
  obtain t' where t': "clamp01 x = Finite t'" "num_le x (Finite 0) \<longrightarrow> t' = 0"
    "num_ge x (Finite 1) \<longrightarrow> t' = 1"
    using clamp01_unit [OF assms] by blast
  have tt: "t' = t" using t(1) t'(1) by simp
  have range: "0 \<le> cubic64 t" "cubic64 t \<le> 1"
    using cubic_binary64(6,7) [OF t(2,3,4)] by (simp_all add: cubic64_def)
  have ends: "num_le x (Finite 0) \<longrightarrow> cubic64 t = 0" "num_ge x (Finite 1) \<longrightarrow> cubic64 t = 1"
    using t' tt cubic64_ends by auto
  have mono: "\<forall>x'. is_binary64 x' \<and> x' \<noteq> NaN \<and> num_le x x' \<longrightarrow>
                (\<exists>y'. smoothstep (Finite 0) (Finite 1) x' = Finite y' \<and>
                      cubic64 t \<le> y' + 1 / 2 ^ 50)"
    using smoothstep_almost_mono [OF assms _ _ _ s] by blast
  show ?thesis
    unfolding BlackScreen_opacity_def
    using s range ends mono by blast
qed

text \<open>
  A state of 5/4, past 1, is drawn with the opacity 1, and a state of -1/4 with the
  opacity 0.
\<close>

theorem smoothstep_opacity_witness:
  "is_binary64 (Finite (5 / 4)) \<and> Finite (5 / 4) \<noteq> NaN \<and>
   num_ge (Finite (5 / 4)) (Finite 1) \<and>
   BlackScreen_opacity (Finite (5 / 4)) = Finite 1 \<and>
   is_binary64 (Finite (- (1 / 4))) \<and> Finite (- (1 / 4)) \<noteq> NaN \<and>
   num_le (Finite (- (1 / 4))) (Finite 0) \<and>
   BlackScreen_opacity (Finite (- (1 / 4))) = Finite 0"
proof -
  have b1: "is_binary64 (Finite (5 / 4))"
    by (rule is_binary64_I [of "- 2" 5]) (simp_all add: power_int_minus_divide)
  have n1: "Finite (5 / 4) \<noteq> NaN" by simp
  have g1: "num_ge (Finite (5 / 4)) (Finite 1)" by (simp add: num_ge_def)
  have b2: "is_binary64 (Finite (- (1 / 4)))"
    by (rule is_binary64_I [of "- 2" "- 1"]) (simp_all add: power_int_minus_divide)
  have n2: "Finite (- (1 / 4)) \<noteq> NaN" by simp
  have l2: "num_le (Finite (- (1 / 4))) (Finite 0)" by simp
  have o1: "BlackScreen_opacity (Finite (5 / 4)) = Finite 1"
    using smoothstep_opacity [OF b1 n1] g1 by auto
  have o2: "BlackScreen_opacity (Finite (- (1 / 4))) = Finite 0"
    using smoothstep_opacity [OF b2 n2] l2 by auto
  show ?thesis
    using b1 n1 g1 o1 b2 n2 l2 o2 by blast
qed

subsection \<open>C2: an augmentation already owned\<close>

text \<open>
  As claim C2 states it, the state of an owned entry that is not the repeatable one is
  \<open>AlreadyOwned\<close> before every other state, the lock by prerequisites included. The
  component tests the prerequisites first: the entry \<open>B\<close>, installed, whose
  prerequisite \<open>A\<close> the player has not, is shown locked.
\<close>

theorem owned_without_prereq_counterexample:
  "displayState
     (determineUIProperties
        \<lparr>Augmentations = Map.empty, NeuroFluxGovernor = ''NeuroFlux Governor'',
         SuppressBuyAugmentationConfirmation = False, getNextNeurofluxLevel = 1\<rparr>
        \<lparr>name = ''B'', baseCost = 0, baseRepRequirement = 0, prereqs = [''A''], owned = True,
         info = InfoString '''', stats = ''''\<rparr>
        \<lparr>augName = ''B'',
         faction = \<lparr>playerReputation = 0,
                    getInfo = \<lparr>augmentationPriceMult = 1, augmentationRepRequirementMult = 1\<rparr>\<rparr>,
         props_p = \<lparr>money = 0, queuedAugmentations = [], augmentations = [''B'']\<rparr>,
         props_owned = None\<rparr>)
   = Locked"
  by (simp add: determineUIProperties_def displayState_def hasPrereqs_def
      hasAugmentationPrereqs_def missingPrereqs_def Let_def)

text \<open>
  Claim C2, amended: for every entry other than the repeatable one that the player
  owns or has queued and whose prerequisites are all met, the state is \<open>AlreadyOwned\<close>
  with the purchase disabled (there is no status, and a click does nothing), whatever
  the reputation and the funds; \<open>AlreadyOwned\<close> comes before the states decided by
  reputation and funds, and after the lock by prerequisites: with a prerequisite
  missing the state is \<open>Locked\<close>.
\<close>

theorem already_owned_state:
  assumes "name aug \<noteq> NeuroFluxGovernor g"
    and "owned aug \<or> augName props \<in> set (queuedAugmentations (props_p props)) \<or>
         augName props \<in> set (augmentations (props_p props))"
  shows "(missingPrereqs aug (props_p props) = [] \<longrightarrow>
            displayState (determineUIProperties g aug props) = AlreadyOwned \<and>
            disabled (determineUIProperties g aug props) \<and>
            status (determineUIProperties g aug props) = None \<and>
            handleClick g aug props (disabled (determineUIProperties g aug props)) = []) \<and>
         (missingPrereqs aug (props_p props) \<noteq> [] \<longrightarrow>
            displayState (determineUIProperties g aug props) = Locked)"
proof -
  have own: "owned aug \<or> owned_fn props"
    using assms(2) by (auto simp add: owned_fn_eq)
  show ?thesis
  proof (cases "hasPrereqs aug props")
    case True
    then show ?thesis
      using ui_owned [OF True assms(1) own]
      by (simp add: displayState_def handleClick_def hasPrereqs_iff)
  next
    case False
    then show ?thesis
      using ui_no_prereqs [OF False, of g]
      by (simp add: displayState_def hasPrereqs_iff)
  qed
qed

text \<open>
  The entry \<open>B\<close>, queued, with its prerequisite \<open>A\<close> installed, enough reputation and
  enough money: already owned, and disabled.
\<close>

theorem already_owned_state_witness:
  "(let g = \<lparr>Augmentations = Map.empty, NeuroFluxGovernor = ''NeuroFlux Governor'',
             SuppressBuyAugmentationConfirmation = False, getNextNeurofluxLevel = 1\<rparr>;
        a = \<lparr>name = ''B'', baseCost = 1000, baseRepRequirement = 500, prereqs = [''A''],
             owned = False, info = InfoString '''', stats = ''''\<rparr>;
        p = \<lparr>augName = ''B'',
             faction = \<lparr>playerReputation = 1200,
                        getInfo = \<lparr>augmentationPriceMult = 1,
                                   augmentationRepRequirementMult = 1\<rparr>\<rparr>,
             props_p = \<lparr>money = 2000, queuedAugmentations = [''B''], augmentations = [''A'']\<rparr>,
             props_owned = None\<rparr>
    in name a \<noteq> NeuroFluxGovernor g \<and>
       augName p \<in> set (queuedAugmentations (props_p p)) \<and>
       missingPrereqs a (props_p p) = [] \<and>
       hasSufficientRep a p \<and> hasSufficientFunds a p \<and>
       displayState (determineUIProperties g a p) = AlreadyOwned \<and>
       disabled (determineUIProperties g a p) \<and>
       handleClick g a p (disabled (determineUIProperties g a p)) = [])"
proof -
  let ?g = "\<lparr>Augmentations = Map.empty, NeuroFluxGovernor = ''NeuroFlux Governor'',
             SuppressBuyAugmentationConfirmation = False, getNextNeurofluxLevel = 1\<rparr>"
  let ?a = "\<lparr>name = ''B'', baseCost = 1000, baseRepRequirement = 500, prereqs = [''A''],
             owned = False, info = InfoString '''', stats = ''''\<rparr>"
  let ?p = "\<lparr>augName = ''B'',
             faction = \<lparr>playerReputation = 1200,
                        getInfo = \<lparr>augmentationPriceMult = 1,
                                   augmentationRepRequirementMult = 1\<rparr>\<rparr>,
             props_p = \<lparr>money = 2000, queuedAugmentations = [''B''], augmentations = [''A'']\<rparr>,
             props_owned = None\<rparr>"
  have h1: "name ?a \<noteq> NeuroFluxGovernor ?g" by simp
  have h2: "owned ?a \<or> augName ?p \<in> set (queuedAugmentations (props_p ?p)) \<or>
            augName ?p \<in> set (augmentations (props_p ?p))" by simp
  have h3: "missingPrereqs ?a (props_p ?p) = []" by (simp add: missingPrereqs_def)
  have h4: "hasSufficientRep ?a ?p \<and> hasSufficientFunds ?a ?p"
    by (simp add: hasSufficientRep_def hasSufficientFunds_def hasReputation_def hasCost_def
        getRepCost_def)
  have h5: "augName ?p \<in> set (queuedAugmentations (props_p ?p))" by simp
  show ?thesis
    unfolding Let_def
    using already_owned_state [OF h1 h2] h1 h3 h4 h5 by blast
qed

subsection \<open>C3: unlocked only with reputation and funds\<close>

text \<open>
  Claim C3: for every entry whose prerequisites are met and that the ownership test
  does not exclude, the state is \<open>Unlocked\<close> only when the reputation and the funds
  are both sufficient; when either is missing the state is \<open>Locked\<close>, with the purchase
  disabled and the error colour, and what is missing stays in the result: the status
  is the unlocked one when the reputation suffices and the locked one when it does
  not, and the row hands both flags, the requirement and the cost to the cells that
  show the requirements.
\<close>

theorem unlocked_needs_rep_and_funds:
  assumes "missingPrereqs aug (props_p props) = []"
    and "\<not> (name aug \<noteq> NeuroFluxGovernor g \<and> (owned aug \<or> owned_fn props))"
  shows "(displayState (determineUIProperties g aug props) = Unlocked) =
           (hasSufficientRep aug props \<and> hasSufficientFunds aug props) \<and>
         (\<not> (hasSufficientRep aug props \<and> hasSufficientFunds aug props) \<longrightarrow>
            displayState (determineUIProperties g aug props) = Locked \<and>
            disabled (determineUIProperties g aug props) \<and>
            color (determineUIProperties g aug props) = ColorError) \<and>
         (hasSufficientRep aug props \<and> hasSufficientFunds aug props \<longrightarrow>
            \<not> disabled (determineUIProperties g aug props) \<and>
            color (determineUIProperties g aug props) = Primary) \<and>
         status (determineUIProperties g aug props) =
           Some (if hasSufficientRep aug props
                 then StatusUnlocked (effectiveRepRequirement aug props) (effectiveCost aug props)
                 else StatusLockedRep (effectiveRepRequirement aug props) (effectiveCost aug props)) \<and>
         (Augmentations g (augName props) = Some aug \<and> props_owned props \<noteq> Some True \<longrightarrow>
            (\<exists>r rp. PurchaseableAugmentation g props = Inr ([], Row r) \<and>
                     requirements r = Some rp \<and>
                     hasRep rp = hasSufficientRep aug props \<and>
                     req_hasCost rp = (\<not> hasSufficientFunds aug props) \<and>
                     rep rp = effectiveRepRequirement aug props \<and>
                     cost rp = effectiveCost aug props))"
proof -
  have req: "hasPrereqs aug props"
    using assms(1) by (simp add: hasPrereqs_iff)
  note ui = ui_available [OF req assms(2)]
  have "\<exists>r rp. PurchaseableAugmentation g props = Inr ([], Row r) \<and>
                requirements r = Some rp \<and>
                hasRep rp = hasSufficientRep aug props \<and>
                req_hasCost rp = (\<not> hasSufficientFunds aug props) \<and>
                rep rp = effectiveRepRequirement aug props \<and>
                cost rp = effectiveCost aug props"
    if "Augmentations g (augName props) = Some aug" "props_owned props \<noteq> Some True"
    using component_found [OF that(1)] that(2)
    by (auto simp add: hasSufficientRep_def hasSufficientFunds_def
        effectiveRepRequirement_def effectiveCost_def)
  then show ?thesis
    using ui
    by (simp add: displayState_def hasSufficientRep_def hasSufficientFunds_def
        effectiveRepRequirement_def effectiveCost_def)
qed

text \<open>
  An entry costing 1000 at a price multiplier of 1.5, with the reputation met: locked
  with 1400 in hand, unlocked with 2000.
\<close>

theorem unlocked_needs_rep_and_funds_witness:
  "(let g = \<lparr>Augmentations = Map.empty, NeuroFluxGovernor = ''NeuroFlux Governor'',
             SuppressBuyAugmentationConfirmation = False, getNextNeurofluxLevel = 1\<rparr>;
        a = \<lparr>name = ''A'', baseCost = 1000, baseRepRequirement = 500, prereqs = [],
             owned = False, info = InfoString '''', stats = ''''\<rparr>;
        p = \<lparr>augName = ''A'',
             faction = \<lparr>playerReputation = 1200,
                        getInfo = \<lparr>augmentationPriceMult = 1.5,
                                   augmentationRepRequirementMult = 2\<rparr>\<rparr>,
             props_p = \<lparr>money = 1400, queuedAugmentations = [], augmentations = []\<rparr>,
             props_owned = None\<rparr>;
        q = \<lparr>augName = ''A'',
             faction = \<lparr>playerReputation = 1200,
                        getInfo = \<lparr>augmentationPriceMult = 1.5,
                                   augmentationRepRequirementMult = 2\<rparr>\<rparr>,
             props_p = \<lparr>money = 2000, queuedAugmentations = [], augmentations = []\<rparr>,
             props_owned = None\<rparr>
    in missingPrereqs a (props_p p) = [] \<and>
       \<not> (name a \<noteq> NeuroFluxGovernor g \<and> (owned a \<or> owned_fn p)) \<and>
       hasSufficientRep a p \<and> \<not> hasSufficientFunds a p \<and>
       displayState (determineUIProperties g a p) = Locked \<and>
       disabled (determineUIProperties g a p) \<and>
       color (determineUIProperties g a p) = ColorError \<and>
       hasSufficientRep a q \<and> hasSufficientFunds a q \<and>
       displayState (determineUIProperties g a q) = Unlocked)"
proof -
  let ?g = "\<lparr>Augmentations = Map.empty, NeuroFluxGovernor = ''NeuroFlux Governor'',
             SuppressBuyAugmentationConfirmation = False, getNextNeurofluxLevel = 1\<rparr>"
  let ?a = "\<lparr>name = ''A'', baseCost = 1000, baseRepRequirement = 500, prereqs = [],
             owned = False, info = InfoString '''', stats = ''''\<rparr>"
  let ?p = "\<lparr>augName = ''A'',
             faction = \<lparr>playerReputation = 1200,
                        getInfo = \<lparr>augmentationPriceMult = 1.5,
                                   augmentationRepRequirementMult = 2\<rparr>\<rparr>,
             props_p = \<lparr>money = 1400, queuedAugmentations = [], augmentations = []\<rparr>,
             props_owned = None\<rparr>"
  let ?q = "\<lparr>augName = ''A'',
             faction = \<lparr>playerReputation = 1200,
                        getInfo = \<lparr>augmentationPriceMult = 1.5,
                                   augmentationRepRequirementMult = 2\<rparr>\<rparr>,
             props_p = \<lparr>money = 2000, queuedAugmentations = [], augmentations = []\<rparr>,
             props_owned = None\<rparr>"
  have p1: "missingPrereqs ?a (props_p ?p) = []" by (simp add: missingPrereqs_def)
  have p2: "\<not> (name ?a \<noteq> NeuroFluxGovernor ?g \<and> (owned ?a \<or> owned_fn ?p))"
    by (simp add: owned_fn_def)
  have q1: "missingPrereqs ?a (props_p ?q) = []" by (simp add: missingPrereqs_def)
  have q2: "\<not> (name ?a \<noteq> NeuroFluxGovernor ?g \<and> (owned ?a \<or> owned_fn ?q))"
    by (simp add: owned_fn_def)
  have flags: "hasSufficientRep ?a ?p \<and> \<not> hasSufficientFunds ?a ?p \<and>
               hasSufficientRep ?a ?q \<and> hasSufficientFunds ?a ?q"
    by (simp add: hasSufficientRep_def hasSufficientFunds_def hasReputation_def hasCost_def
        getRepCost_def)
  show ?thesis
    unfolding Let_def
    using unlocked_needs_rep_and_funds [OF p1 p2] unlocked_needs_rep_and_funds [OF q1 q2]
      p1 p2 flags
    by simp
qed

subsection \<open>C5: missing prerequisites lock the entry\<close>

text \<open>
  Claim C5: for every entry with a prerequisite the player has neither installed nor
  queued, the state is \<open>Locked\<close> with the purchase disabled, and neither the
  reputation nor the money has a part in the outcome: the three UI properties are the
  same for every reputation \<open>r\<close> and every balance \<open>m\<close>, the requirement cells name
  the prerequisites only, and a click on the button does nothing.
\<close>

theorem missing_prereqs_locked:
  assumes "missingPrereqs aug (props_p props) \<noteq> []"
  shows "determineUIProperties g aug props =
           \<lparr>disabled = True, status = Some (StatusLockedPrereqs (prereqs aug)),
            color = ColorError\<rparr> \<and>
         displayState (determineUIProperties g aug props) = Locked \<and>
         determineUIProperties g aug
           (props\<lparr>faction := (faction props)\<lparr>playerReputation := r\<rparr>,
                  props_p := (props_p props)\<lparr>money := m\<rparr>\<rparr>) =
           determineUIProperties g aug props \<and>
         handleClick g aug props (disabled (determineUIProperties g aug props)) = [] \<and>
         (Augmentations g (augName props) = Some aug \<and> props_owned props \<noteq> Some True \<longrightarrow>
            (\<exists>row rp. PurchaseableAugmentation g props = Inr ([], Row row) \<and>
                       buyCell row = Some (Some \<lparr>onClick = [], button_color = ColorError\<rparr>) \<and>
                       requirements row = Some rp \<and>
                       Requirements g rp = Inr [CellRequires (prereqs aug)]))"
proof -
  have req: "\<not> hasPrereqs aug props"
    using assms by (simp add: hasPrereqs_iff)
  have req': "\<not> hasPrereqs aug
           (props\<lparr>faction := (faction props)\<lparr>playerReputation := r\<rparr>,
                  props_p := (props_p props)\<lparr>money := m\<rparr>\<rparr>)"
    using assms by (simp add: hasPrereqs_iff missingPrereqs_def)
  have shown: "\<exists>row rp. PurchaseableAugmentation g props = Inr ([], Row row) \<and>
                  buyCell row = Some (Some \<lparr>onClick = [], button_color = ColorError\<rparr>) \<and>
                  requirements row = Some rp \<and>
                  Requirements g rp = Inr [CellRequires (prereqs aug)]"
    if found: "Augmentations g (augName props) = Some aug"
      and visible: "props_owned props \<noteq> Some True"
  proof -
    obtain row where row: "PurchaseableAugmentation g props = Inr ([], Row row)"
      and buy: "buyCell row =
         (if props_owned props = Some True then None
          else Some (if status (determineUIProperties g aug props) = None then None
                     else Some \<lparr>onClick = handleClick g aug props
                                            (disabled (determineUIProperties g aug props)),
                                button_color = color (determineUIProperties g aug props)\<rparr>))"
      and reqs: "requirements row =
         (if props_owned props = Some True then None
          else Some \<lparr>req_augName = augName props, req_p = props_p props,
                     hasReq = hasPrereqs aug props, rep = getRepCost aug props,
                     hasRep = hasReputation aug props, cost = getMoneyCost aug props,
                     req_hasCost = hasCost aug props\<rparr>)"
      using component_found [OF found] by blast
    let ?rp = "\<lparr>req_augName = augName props, req_p = props_p props,
                hasReq = hasPrereqs aug props, rep = getRepCost aug props,
                hasRep = hasReputation aug props, cost = getMoneyCost aug props,
                req_hasCost = hasCost aug props\<rparr>"
    have "buyCell row = Some (Some \<lparr>onClick = [], button_color = ColorError\<rparr>)"
      using buy visible ui_no_prereqs [OF req, of g] by (simp add: handleClick_def)
    moreover have "requirements row = Some ?rp"
      using reqs visible by simp
    moreover have "Requirements g ?rp = Inr [CellRequires (prereqs aug)]"
      using req found by (simp add: Requirements_def)
    ultimately show ?thesis using row by blast
  qed
  show ?thesis
    using ui_no_prereqs [OF req, of g] ui_no_prereqs [OF req', of g] shown
    by (simp add: displayState_def handleClick_def)
qed

text \<open>
  The entry \<open>B\<close> needs \<open>A\<close>, which the player has not: locked, for a player without
  reputation or money as for one with a reputation of 1200 and a balance of 2000.
\<close>

theorem missing_prereqs_locked_witness:
  "(let g = \<lparr>Augmentations = Map.empty, NeuroFluxGovernor = ''NeuroFlux Governor'',
             SuppressBuyAugmentationConfirmation = False, getNextNeurofluxLevel = 1\<rparr>;
        a = \<lparr>name = ''B'', baseCost = 1000, baseRepRequirement = 500, prereqs = [''A''],
             owned = False, info = InfoString '''', stats = ''''\<rparr>;
        p = \<lparr>augName = ''B'',
             faction = \<lparr>playerReputation = 0,
                        getInfo = \<lparr>augmentationPriceMult = 1,
                                   augmentationRepRequirementMult = 1\<rparr>\<rparr>,
             props_p = \<lparr>money = 0, queuedAugmentations = [], augmentations = []\<rparr>,
             props_owned = None\<rparr>
    in missingPrereqs a (props_p p) \<noteq> [] \<and>
       displayState (determineUIProperties g a p) = Locked \<and>
       determineUIProperties g a
         (p\<lparr>faction := (faction p)\<lparr>playerReputation := 1200\<rparr>,
            props_p := (props_p p)\<lparr>money := 2000\<rparr>\<rparr>) =
         determineUIProperties g a p \<and>
       handleClick g a p (disabled (determineUIProperties g a p)) = [])"
proof -
  let ?g = "\<lparr>Augmentations = Map.empty, NeuroFluxGovernor = ''NeuroFlux Governor'',
             SuppressBuyAugmentationConfirmation = False, getNextNeurofluxLevel = 1\<rparr>"
  let ?a = "\<lparr>name = ''B'', baseCost = 1000, baseRepRequirement = 500, prereqs = [''A''],
             owned = False, info = InfoString '''', stats = ''''\<rparr>"
  let ?p = "\<lparr>augName = ''B'',
             faction = \<lparr>playerReputation = 0,
                        getInfo = \<lparr>augmentationPriceMult = 1,
                                   augmentationRepRequirementMult = 1\<rparr>\<rparr>,
             props_p = \<lparr>money = 0, queuedAugmentations = [], augmentations = []\<rparr>,
             props_owned = None\<rparr>"
  have h: "missingPrereqs ?a (props_p ?p) \<noteq> []" by (simp add: missingPrereqs_def)
  show ?thesis
    unfolding Let_def
    using missing_prereqs_locked [OF h, where g = ?g and r = 1200 and m = 2000] h
    by (elim conjE) (intro conjI; assumption)
qed

subsection \<open>C7: the repeatable augmentation\<close>

text \<open>
  Claim C7: for the repeatable entry, the one named by
  \<open>AugmentationNames.NeuroFluxGovernor\<close>, the state is never \<open>AlreadyOwned\<close>: there
  is always a status, the flag \<open>owned\<close> of the entry changes nothing, and with the
  prerequisites met the outcome is the one the reputation and the funds decide,
  whether or not the player owns or has queued the entry; its label carries the next
  level.
\<close>

theorem neuroflux_never_already_owned:
  assumes "name aug = NeuroFluxGovernor g"
  shows "status (determineUIProperties g aug props) \<noteq> None \<and>
         displayState (determineUIProperties g aug props) \<noteq> AlreadyOwned \<and>
         (missingPrereqs aug (props_p props) = [] \<longrightarrow>
            status (determineUIProperties g aug props) =
              Some (if hasSufficientRep aug props
                    then StatusUnlocked (effectiveRepRequirement aug props) (effectiveCost aug props)
                    else StatusLockedRep (effectiveRepRequirement aug props) (effectiveCost aug props)) \<and>
            disabled (determineUIProperties g aug props) =
              (\<not> (hasSufficientRep aug props \<and> hasSufficientFunds aug props)) \<and>
            (displayState (determineUIProperties g aug props) = Unlocked) =
              (hasSufficientRep aug props \<and> hasSufficientFunds aug props)) \<and>
         determineUIProperties g (aug\<lparr>owned := b\<rparr>) props = determineUIProperties g aug props \<and>
         (Augmentations g (augName props) = Some aug \<longrightarrow>
            (\<exists>row. PurchaseableAugmentation g props = Inr ([], Row row) \<and>
                   btnTxt row =
                     name aug @ '' - Level '' @ toString_nat (getNextNeurofluxLevel g)))"
proof -
  have nfg: "\<not> (name aug \<noteq> NeuroFluxGovernor g \<and> (owned aug \<or> owned_fn props))"
    using assms by simp
  have st: "status (determineUIProperties g aug props) \<noteq> None"
    using assms by (simp add: determineUIProperties_def Let_def)
  have avail: "status (determineUIProperties g aug props) =
              Some (if hasSufficientRep aug props
                    then StatusUnlocked (effectiveRepRequirement aug props) (effectiveCost aug props)
                    else StatusLockedRep (effectiveRepRequirement aug props) (effectiveCost aug props)) \<and>
            disabled (determineUIProperties g aug props) =
              (\<not> (hasSufficientRep aug props \<and> hasSufficientFunds aug props)) \<and>
            (displayState (determineUIProperties g aug props) = Unlocked) =
              (hasSufficientRep aug props \<and> hasSufficientFunds aug props)"
    if "missingPrereqs aug (props_p props) = []"
  proof -
    have req: "hasPrereqs aug props"
      using that by (simp add: hasPrereqs_iff)
    show ?thesis
      using ui_available [OF req nfg]
      by (simp add: displayState_def hasSufficientRep_def hasSufficientFunds_def
          effectiveRepRequirement_def effectiveCost_def)
  qed
  have flag: "determineUIProperties g (aug\<lparr>owned := b\<rparr>) props = determineUIProperties g aug props"
    using assms
    by (simp add: determineUIProperties_def Let_def hasPrereqs_def hasAugmentationPrereqs_def
        missingPrereqs_def getMoneyCost_def getRepCost_def hasReputation_def hasCost_def)
  have label: "\<exists>row. PurchaseableAugmentation g props = Inr ([], Row row) \<and>
                 btnTxt row = name aug @ '' - Level '' @ toString_nat (getNextNeurofluxLevel g)"
    if "Augmentations g (augName props) = Some aug"
    using component_found [OF that] assms by auto
  show ?thesis
    using st avail flag label by (simp add: displayState_def)
qed

text \<open>
  The repeatable entry, installed and flagged as owned, with the reputation and the
  money it asks for: unlocked.
\<close>

theorem neuroflux_never_already_owned_witness:
  "(let g = \<lparr>Augmentations = Map.empty, NeuroFluxGovernor = ''NeuroFlux Governor'',
             SuppressBuyAugmentationConfirmation = False, getNextNeurofluxLevel = 1\<rparr>;
        a = \<lparr>name = ''NeuroFlux Governor'', baseCost = 1000, baseRepRequirement = 500,
             prereqs = [], owned = True, info = InfoString '''', stats = ''''\<rparr>;
        p = \<lparr>augName = ''NeuroFlux Governor'',
             faction = \<lparr>playerReputation = 1200,
                        getInfo = \<lparr>augmentationPriceMult = 1.5,
                                   augmentationRepRequirementMult = 2\<rparr>\<rparr>,
             props_p = \<lparr>money = 2000, queuedAugmentations = [],
                        augmentations = [''NeuroFlux Governor'']\<rparr>,
             props_owned = None\<rparr>
    in name a = NeuroFluxGovernor g \<and> owned a \<and> owned_fn p \<and>
       missingPrereqs a (props_p p) = [] \<and>
       hasSufficientRep a p \<and> hasSufficientFunds a p \<and>
       displayState (determineUIProperties g a p) \<noteq> AlreadyOwned \<and>
       displayState (determineUIProperties g a p) = Unlocked)"
proof -
  let ?g = "\<lparr>Augmentations = Map.empty, NeuroFluxGovernor = ''NeuroFlux Governor'',
             SuppressBuyAugmentationConfirmation = False, getNextNeurofluxLevel = 1\<rparr>"
  let ?a = "\<lparr>name = ''NeuroFlux Governor'', baseCost = 1000, baseRepRequirement = 500,
             prereqs = [], owned = True, info = InfoString '''', stats = ''''\<rparr>"
  let ?p = "\<lparr>augName = ''NeuroFlux Governor'',
             faction = \<lparr>playerReputation = 1200,
                        getInfo = \<lparr>augmentationPriceMult = 1.5,
                                   augmentationRepRequirementMult = 2\<rparr>\<rparr>,
             props_p = \<lparr>money = 2000, queuedAugmentations = [],
                        augmentations = [''NeuroFlux Governor'']\<rparr>,
             props_owned = None\<rparr>"
  have h: "name ?a = NeuroFluxGovernor ?g" by simp
  have own: "owned ?a \<and> owned_fn ?p" by (simp add: owned_fn_def)
  have pre: "missingPrereqs ?a (props_p ?p) = []" by (simp add: missingPrereqs_def)
  have flags: "hasSufficientRep ?a ?p \<and> hasSufficientFunds ?a ?p"
    by (simp add: hasSufficientRep_def hasSufficientFunds_def hasReputation_def hasCost_def
        getRepCost_def)
  show ?thesis
    unfolding Let_def
    using neuroflux_never_already_owned [OF h, of ?p] h own pre flags by blast
qed

subsection \<open>C9: scaling with the multipliers\<close>



end
